theory Spec2Isabelle
  imports Main "HOL-Library.Word" "HOL-Library.AList"
begin

unbundle bit_operations_syntax

section \<open>The middleware between the mail and calendar service and two cache webhooks\<close>

text \<open>
  The repository holds two variants of one Flask service, \<^verbatim>\<open>app.py\<close> and
  \<^verbatim>\<open>application.py\<close>. Both are embedded here; a function whose body differs between
  the two files takes the variant as its first argument.
\<close>

datatype variant = App | Application

subsection \<open>The integration key: hashlib.sha512, hexdigest, and the split\<close>

text \<open>
  \<^verbatim>\<open>hashlib.sha512(s).hexdigest()\<close> is SHA-512 as FIPS 180-4 defines it, written as
  lower-case hexadecimal. The round constants are the first 64 bits of the fractional
  parts of the cube roots of the first eighty primes, the initial hash value those of
  the square roots of the first eight; they are computed here from that definition.
  A Python \<^verbatim>\<open>str\<close> is modelled by the list of the bytes of its UTF-8 encoding, so
  \<^verbatim>\<open>.encode('utf-8')\<close> is the identity.
\<close>

type_synonym w64 = "64 word"

fun iroot_bits :: "nat \<Rightarrow> nat \<Rightarrow> nat \<Rightarrow> nat \<Rightarrow> nat" where
  "iroot_bits k n 0 r = (if (r + 1) ^ k \<le> n then r + 1 else r)"
| "iroot_bits k n (Suc i) r =
     iroot_bits k n i (if (r + 2 ^ Suc i) ^ k \<le> n then r + 2 ^ Suc i else r)"

definition frac_root :: "nat \<Rightarrow> nat \<Rightarrow> w64" where
  "frac_root k p = word_of_nat (iroot_bits k (p * 2 ^ (64 * k)) 70 0)"

definition first_primes :: "nat list" where
  "first_primes =
    [2, 3, 5, 7, 11, 13, 17, 19, 23, 29, 31, 37, 41, 43, 47, 53, 59, 61, 67, 71,
     73, 79, 83, 89, 97, 101, 103, 107, 109, 113, 127, 131, 137, 139, 149, 151,
     157, 163, 167, 173, 179, 181, 191, 193, 197, 199, 211, 223, 227, 229, 233,
     239, 241, 251, 257, 263, 269, 271, 277, 281, 283, 293, 307, 311, 313, 317,
     331, 337, 347, 349, 353, 359, 367, 373, 379, 383, 389, 397, 401, 409]"

definition K512 :: "w64 list" where
  "K512 = map (frac_root 3) first_primes"

type_synonym hash_state = "w64 \<times> w64 \<times> w64 \<times> w64 \<times> w64 \<times> w64 \<times> w64 \<times> w64"

definition H0_512 :: hash_state where
  "H0_512 = (frac_root 2 2, frac_root 2 3, frac_root 2 5, frac_root 2 7,
             frac_root 2 11, frac_root 2 13, frac_root 2 17, frac_root 2 19)"

definition Ch :: "w64 \<Rightarrow> w64 \<Rightarrow> w64 \<Rightarrow> w64" where
  "Ch x y z = (x AND y) XOR (NOT x AND z)"

definition Maj :: "w64 \<Rightarrow> w64 \<Rightarrow> w64 \<Rightarrow> w64" where
  "Maj x y z = (x AND y) XOR (x AND z) XOR (y AND z)"

definition Sigma0 :: "w64 \<Rightarrow> w64" where
  "Sigma0 x = word_rotr 28 x XOR word_rotr 34 x XOR word_rotr 39 x"

definition Sigma1 :: "w64 \<Rightarrow> w64" where
  "Sigma1 x = word_rotr 14 x XOR word_rotr 18 x XOR word_rotr 41 x"

definition sigma0 :: "w64 \<Rightarrow> w64" where
  "sigma0 x = word_rotr 1 x XOR word_rotr 8 x XOR drop_bit 7 x"

definition sigma1 :: "w64 \<Rightarrow> w64" where
  "sigma1 x = word_rotr 19 x XOR word_rotr 61 x XOR drop_bit 6 x"

definition be_bytes :: "nat \<Rightarrow> nat \<Rightarrow> nat list" where
  "be_bytes n v = map (\<lambda>i. (v div 256 ^ (n - 1 - i)) mod 256) [0..<n]"

definition sha_pad :: "nat list \<Rightarrow> nat list" where
  "sha_pad m = m @ [128] @ replicate ((128 - (length m + 17) mod 128) mod 128) 0
                 @ be_bytes 16 (8 * length m)"

text \<open>The message is cut into blocks of \<open>n\<close> items, the last one possibly shorter.\<close>

fun blocks_of :: "nat \<Rightarrow> 'a list \<Rightarrow> 'a list list" where
  "blocks_of n xs =
     (if xs = [] then [] else if n = 0 then [xs] else take n xs # blocks_of n (drop n xs))"

declare blocks_of.simps [simp del]

definition be_word :: "nat list \<Rightarrow> w64" where
  "be_word bs = word_of_nat (foldl (\<lambda>acc b. acc * 256 + b) 0 bs)"

fun schedule :: "nat \<Rightarrow> w64 list \<Rightarrow> w64 list" where
  "schedule 0 w = w"
| "schedule (Suc n) w =
     (let t = length w
      in schedule n
           (w @ [sigma1 (w ! (t - 2)) + w ! (t - 7) + sigma0 (w ! (t - 15)) + w ! (t - 16)]))"

definition sha_round :: "w64 list \<Rightarrow> hash_state \<Rightarrow> nat \<Rightarrow> hash_state" where
  "sha_round w st t =
     (case st of (a, b, c, d, e, f, g, h) \<Rightarrow>
        let T1 = h + Sigma1 e + Ch e f g + K512 ! t + w ! t;
            T2 = Sigma0 a + Maj a b c
        in (T1 + T2, a, b, c, d + T1, e, f, g))"

definition sha_compress :: "hash_state \<Rightarrow> nat list \<Rightarrow> hash_state" where
  "sha_compress H block =
     (let w = schedule 64 (map be_word (blocks_of 8 block))
      in case (H, foldl (sha_round w) H [0..<80]) of
           ((a, b, c, d, e, f, g, h), (a', b', c', d', e', f', g', h')) \<Rightarrow>
             (a + a', b + b', c + c', d + d', e + e', f + f', g + g', h + h'))"

definition hexdigit :: "nat \<Rightarrow> char" where
  "hexdigit n = ''0123456789abcdef'' ! n"

definition hex64 :: "w64 \<Rightarrow> string" where
  "hex64 w = map (\<lambda>i. hexdigit (unat (drop_bit (4 * (15 - i)) w AND 15))) [0..<16]"

definition sha512_hexdigest :: "string \<Rightarrow> string" where
  "sha512_hexdigest s =
     (case foldl sha_compress H0_512 (blocks_of 128 (sha_pad (map of_char s))) of
        (a, b, c, d, e, f, g, h) \<Rightarrow>
          hex64 a @ hex64 b @ hex64 c @ hex64 d @ hex64 e @ hex64 f @ hex64 g @ hex64 h)"

text \<open>
  \<^verbatim>\<open>trigger_middleware\<close> computes the key from the two webhook URLs, calendar first:
  \<^verbatim>\<open>_hkey = hashlib.sha512(s).hexdigest()\<close> and \<^verbatim>\<open>hkey = [_hkey[0:32], _hkey[32:]]\<close>.
  The callback puts the two parts together again with \<^verbatim>\<open>hkey = hkey0+hkey1\<close>.
\<close>

definition full_hkey :: "string \<Rightarrow> string \<Rightarrow> string" where
  "full_hkey calendar_webhook email_webhook = sha512_hexdigest (calendar_webhook @ email_webhook)"

definition split_hkey :: "string \<Rightarrow> string \<Rightarrow> string \<times> string" where
  "split_hkey calendar_webhook email_webhook =
     (take 32 (full_hkey calendar_webhook email_webhook),
      drop 32 (full_hkey calendar_webhook email_webhook))"

definition rebuild_hkey :: "string \<Rightarrow> string \<Rightarrow> string" where
  "rebuild_hkey hkey0 hkey1 = hkey0 @ hkey1"

section \<open>Python values and the library functions the service calls\<close>

text \<open>
  The service handles parsed JSON throughout: dictionaries, lists, strings, numbers,
  booleans and \<^verbatim>\<open>None\<close>. A dictionary keeps its keys in insertion order, so it is an
  association list. JSON numbers are integers here; no function of the service computes
  with a number it reads.
\<close>

datatype json = JNull | JBool bool | JInt int | JStr string | JList "json list"
  | JDict "(string \<times> json) list"

text \<open>
  The exceptions that the modelled statements raise. \<open>RequestException\<close> is what
  \<^verbatim>\<open>requests\<close> raises for a URL that is not a string with a scheme;
  \<open>MiddlewareException\<close> is the service's own exception, with its message.
\<close>

datatype error = KeyError | ValueError | TypeError | AttributeError | IndexError
  | RequestException | MiddlewareException string

fun truthy :: "json \<Rightarrow> bool" where
  "truthy JNull = False"
| "truthy (JBool b) = b"
| "truthy (JInt n) = (n \<noteq> 0)"
| "truthy (JStr s) = (s \<noteq> [])"
| "truthy (JList xs) = (xs \<noteq> [])"
| "truthy (JDict kvs) = (kvs \<noteq> [])"

text \<open>\<^verbatim>\<open>x[k]\<close> for a string key: only a dictionary can be indexed by a string.\<close>

fun py_getitem :: "json \<Rightarrow> string \<Rightarrow> error + json" where
  "py_getitem (JDict kvs) k = (case map_of kvs k of None \<Rightarrow> Inl KeyError | Some x \<Rightarrow> Inr x)"
| "py_getitem _ k = Inl TypeError"

text \<open>\<^verbatim>\<open>x[k] = y\<close> for a string key.\<close>

fun py_setitem :: "json \<Rightarrow> string \<Rightarrow> json \<Rightarrow> error + json" where
  "py_setitem (JDict kvs) k y = Inr (JDict (AList.update k y kvs))"
| "py_setitem _ k y = Inl TypeError"

text \<open>\<^verbatim>\<open>x.update({k1: y1, ...})\<close>: only a dictionary has the method.\<close>

fun py_update :: "json \<Rightarrow> (string \<times> json) list \<Rightarrow> error + json" where
  "py_update (JDict kvs) new = Inr (JDict (foldl (\<lambda>d (k, y). AList.update k y d) kvs new))"
| "py_update _ new = Inl AttributeError"

fun is_substring :: "string \<Rightarrow> string \<Rightarrow> bool" where
  "is_substring p [] = (p = [])"
| "is_substring p (c # cs) = (if take (length p) (c # cs) = p then True else is_substring p cs)"

text \<open>
  \<^verbatim>\<open>k in x\<close> for a string \<open>k\<close>: a key of a dictionary, an element of a list, a
  substring of a string; the other values are not iterable.
\<close>

fun py_in :: "string \<Rightarrow> json \<Rightarrow> error + bool" where
  "py_in k (JDict kvs) = Inr (map_of kvs k \<noteq> None)"
| "py_in k (JList xs) = Inr (JStr k \<in> set xs)"
| "py_in k (JStr s) = Inr (is_substring k s)"
| "py_in k _ = Inl TypeError"

text \<open>
  Iteration (\<^verbatim>\<open>for x in v\<close>, \<^verbatim>\<open>list.extend(v)\<close>): the elements of a list, the
  characters of a string, the keys of a dictionary.
\<close>

fun py_iter :: "json \<Rightarrow> error + json list" where
  "py_iter (JList xs) = Inr xs"
| "py_iter (JStr s) = Inr (map (\<lambda>c. JStr [c]) s)"
| "py_iter (JDict kvs) = Inr (map (\<lambda>kv. JStr (fst kv)) kvs)"
| "py_iter _ = Inl TypeError"

text \<open>String concatenation \<^verbatim>\<open>s + x\<close> with a string on the left.\<close>

fun py_concat :: "string \<Rightarrow> json \<Rightarrow> error + string" where
  "py_concat s (JStr x) = Inr (s @ x)"
| "py_concat s _ = Inl TypeError"

text \<open>
  A string is kept as the bytes of its UTF-8 encoding. Three functions of the Python
  library depend, outside the ASCII characters, on the Unicode character database or on
  the release of Python that runs the service; the model takes that part of them from
  the library it is given: \<^verbatim>\<open>str.lower\<close> on a string that has a character outside
  ASCII, the test that \<^verbatim>\<open>urlsplit\<close> makes of a host in square brackets
  (\<^verbatim>\<open>_check_bracketed_host\<close>, which releases before 3.11.4 do not have), and the test
  it makes of a network location that has a character outside ASCII
  (\<^verbatim>\<open>_checknetloc\<close>, under NFKC normalisation).
\<close>

record library =
  unicode_lower :: "string \<Rightarrow> string"
  bracketed_host_ok :: "string \<Rightarrow> bool"
  nfkc_netloc_ok :: "string \<Rightarrow> bool"

definition is_ascii :: "string \<Rightarrow> bool" where
  "is_ascii s = list_all (\<lambda>c. \<not> digit7 c) s"

text \<open>
  \<^verbatim>\<open>str.lower\<close>: on a string of ASCII characters it replaces the letters A to Z and
  nothing else.
\<close>

definition lower_char :: "char \<Rightarrow> char" where
  "lower_char c =
     (case map_of (zip ''ABCDEFGHIJKLMNOPQRSTUVWXYZ'' ''abcdefghijklmnopqrstuvwxyz'') c of
        None \<Rightarrow> c
      | Some l \<Rightarrow> l)"

definition lower :: "library \<Rightarrow> string \<Rightarrow> string" where
  "lower lib s = (if is_ascii s then map lower_char s else unicode_lower lib s)"

fun py_lower :: "library \<Rightarrow> json \<Rightarrow> error + string" where
  "py_lower lib (JStr s) = Inr (lower lib s)"
| "py_lower lib _ = Inl AttributeError"

text \<open>\<^verbatim>\<open>s.split(c)\<close> for a one-character separator.\<close>

fun split_on :: "char \<Rightarrow> string \<Rightarrow> string list" where
  "split_on c [] = [[]]"
| "split_on c (x # xs) =
     (if x = c then [] # split_on c xs
      else (case split_on c xs of [] \<Rightarrow> [[x]] | p # ps \<Rightarrow> (x # p) # ps))"

fun py_split :: "json \<Rightarrow> char \<Rightarrow> error + string list" where
  "py_split (JStr s) c = Inr (split_on c s)"
| "py_split _ c = Inl AttributeError"

text \<open>\<^verbatim>\<open>x.split('.', 1)[0]\<close>: the part before the first dot.\<close>

fun py_split_first :: "json \<Rightarrow> char \<Rightarrow> error + string" where
  "py_split_first (JStr s) c = Inr (takeWhile (\<lambda>x. x \<noteq> c) s)"
| "py_split_first _ c = Inl AttributeError"

text \<open>
  \<^verbatim>\<open>x.rsplit('/', 1)[1]\<close>: the part after the last slash; without a slash the list has
  one element and the index is out of range.
\<close>

fun py_rsplit_last :: "json \<Rightarrow> char \<Rightarrow> error + string" where
  "py_rsplit_last (JStr s) c =
     (if c \<in> set s then Inr (rev (takeWhile (\<lambda>x. x \<noteq> c) (rev s))) else Inl IndexError)"
| "py_rsplit_last _ c = Inl AttributeError"

fun py_startswith :: "json \<Rightarrow> string \<Rightarrow> error + bool" where
  "py_startswith (JStr s) p = Inr (take (length p) s = p)"
| "py_startswith _ p = Inl AttributeError"

definition endswith :: "string \<Rightarrow> string \<Rightarrow> bool" where
  "endswith s p = (length p \<le> length s \<and> drop (length s - length p) s = p)"

text \<open>Decimal numerals, for \<^verbatim>\<open>str\<close> of an integer and the fields of a date.\<close>

definition digit_char :: "nat \<Rightarrow> char" where
  "digit_char n = ''0123456789'' ! (n mod 10)"

fun digits :: "nat \<Rightarrow> string" where
  "digits n = (if n < 10 then [digit_char n] else digits (n div 10) @ [digit_char n])"

declare digits.simps [simp del]

definition str_int :: "int \<Rightarrow> string" where
  "str_int i = (if i < 0 then ''-'' @ digits (nat (- i)) else digits (nat i))"

definition join_comma :: "string list \<Rightarrow> string" where
  "join_comma xs = (case xs of [] \<Rightarrow> [] | x # rest \<Rightarrow> x @ concat (map (\<lambda>y. '', '' @ y) rest))"

definition quoted :: "string \<Rightarrow> string" where
  "quoted s = [CHR 0x27] @ s @ [CHR 0x27]"

text \<open>
  \<^verbatim>\<open>repr\<close>, which an f-string uses for the items of a list or dictionary. A string is
  put between single quotes; the escapes that \<^verbatim>\<open>repr\<close> adds for quotes, backslashes and
  unprintable characters are not modelled (the service formats a list only once, and its
  items are hexadecimal digits).
\<close>

fun py_repr :: "json \<Rightarrow> string" where
  "py_repr JNull = ''None''"
| "py_repr (JBool b) = (if b then ''True'' else ''False'')"
| "py_repr (JInt i) = str_int i"
| "py_repr (JStr s) = quoted s"
| "py_repr (JList xs) = ''['' @ join_comma (map py_repr xs) @ '']''"
| "py_repr (JDict kvs) =
     ''{'' @ join_comma (map (\<lambda>kv. quoted (fst kv) @ '': '' @ py_repr (snd kv)) kvs) @ ''}''"

text \<open>\<^verbatim>\<open>str(x)\<close>, which an f-string uses for the value it interpolates.\<close>

definition py_str :: "json \<Rightarrow> string" where
  "py_str x = (case x of JStr s \<Rightarrow> s | _ \<Rightarrow> py_repr x)"

subsection \<open>datetime\<close>

text \<open>
  A naive \<^verbatim>\<open>datetime\<close> is the number of microseconds since 0001-01-01T00:00:00 in
  the proleptic Gregorian calendar; comparison and the addition of a \<^verbatim>\<open>timedelta\<close> are
  those of the integers. (Python raises OverflowError outside the years 1 to 9999; that
  range check is not modelled.) The calendar functions follow CPython's
  \<^verbatim>\<open>datetime\<close> module.
\<close>

type_synonym datetime = int

definition timedelta_hours :: "int \<Rightarrow> int" where
  "timedelta_hours h = h * 3600000000"

definition timedelta_days :: "int \<Rightarrow> int" where
  "timedelta_days d = d * 86400000000"

definition is_leap :: "int \<Rightarrow> bool" where
  "is_leap y = (y mod 4 = 0 \<and> (y mod 400 = 0 \<or> y mod 100 \<noteq> 0))"

definition days_in_month :: "int \<Rightarrow> int \<Rightarrow> int" where
  "days_in_month y m =
     (if m = 2 then (if is_leap y then 29 else 28)
      else if m = 4 \<or> m = 6 \<or> m = 9 \<or> m = 11 then 30 else 31)"

definition days_before_month :: "int \<Rightarrow> int \<Rightarrow> int" where
  "days_before_month y m = sum_list (map (days_in_month y) [1..m - 1])"

definition days_before_year :: "int \<Rightarrow> int" where
  "days_before_year y = (y - 1) * 365 + (y - 1) div 4 - (y - 1) div 100 + (y - 1) div 400"

definition ymd2ord :: "int \<Rightarrow> int \<Rightarrow> int \<Rightarrow> int" where
  "ymd2ord y m d = days_before_year y + days_before_month y m + d"

definition mk_datetime :: "int \<Rightarrow> int \<Rightarrow> int \<Rightarrow> int \<Rightarrow> int \<Rightarrow> int \<Rightarrow> datetime" where
  "mk_datetime y m d hh mm ss =
     (((ymd2ord y m d - 1) * 24 + hh) * 60 + mm) * 60000000 + ss * 1000000"

text \<open>The year, month and day of an ordinal (\<^verbatim>\<open>_ord2ymd\<close>).\<close>

definition ord2ymd :: "int \<Rightarrow> int \<times> int \<times> int" where
  "ord2ymd ord =
     (let n0 = ord - 1;
          n400 = n0 div 146097; n1' = n0 mod 146097;
          n100 = n1' div 36524; n2 = n1' mod 36524;
          n4 = n2 div 1461; n3 = n2 mod 1461;
          n1 = n3 div 365; n = n3 mod 365;
          year = n400 * 400 + 1 + n100 * 100 + n4 * 4 + n1
      in if n1 = 4 \<or> n100 = 4 then (year - 1, 12, 31)
         else
           let month = (n + 50) div 32;
               preceding = days_before_month year month
           in if preceding > n
              then (year, month - 1, n - (preceding - days_in_month year (month - 1)) + 1)
              else (year, month, n - preceding + 1))"

definition pad2 :: "int \<Rightarrow> string" where
  "pad2 i = [digit_char (nat i div 10), digit_char (nat i)]"

definition pad4 :: "int \<Rightarrow> string" where
  "pad4 i = [digit_char (nat i div 1000), digit_char (nat i div 100),
             digit_char (nat i div 10), digit_char (nat i)]"

definition pad6 :: "int \<Rightarrow> string" where
  "pad6 i = [digit_char (nat i div 100000), digit_char (nat i div 10000),
             digit_char (nat i div 1000), digit_char (nat i div 100),
             digit_char (nat i div 10), digit_char (nat i)]"

text \<open>The date and time of day, as \<^verbatim>\<open>%Y-%m-%dT%H:%M:%S\<close> prints them.\<close>

definition date_time_string :: "datetime \<Rightarrow> string" where
  "date_time_string t =
     (let secs = t div 1000000; days = secs div 86400; sod = secs mod 86400
      in case ord2ymd (days + 1) of (y, m, d) \<Rightarrow>
           pad4 y @ ''-'' @ pad2 m @ ''-'' @ pad2 d @ ''T''
           @ pad2 (sod div 3600) @ '':'' @ pad2 (sod mod 3600 div 60) @ '':'' @ pad2 (sod mod 60))"

text \<open>\<^verbatim>\<open>future.strftime("%Y-%m-%dT%H:%M:%S.0000000Z")\<close>\<close>

definition strftime_until :: "datetime \<Rightarrow> string" where
  "strftime_until t = date_time_string t @ ''.0000000Z''"

text \<open>\<^verbatim>\<open>dt.isoformat()\<close>: the microseconds are printed unless they are zero.\<close>

definition isoformat :: "datetime \<Rightarrow> string" where
  "isoformat t =
     date_time_string t @ (if t mod 1000000 = 0 then [] else ''.'' @ pad6 (t mod 1000000))"

text \<open>
  \<^verbatim>\<open>datetime.strptime(s, '%Y-%m-%dT%H:%M:%S')\<close>. The year has exactly four digits, the
  other fields one or two (the day may also be a space and a digit), the letter T matches
  in either case, nothing may follow the seconds, and the fields must name a date and a
  time of day that exist; everything else is a ValueError.
\<close>

definition cut :: "(char \<Rightarrow> bool) \<Rightarrow> string \<Rightarrow> (string \<times> string) option" where
  "cut sep s =
     (case dropWhile (\<lambda>c. \<not> sep c) s of
        [] \<Rightarrow> None
      | _ # rest \<Rightarrow> Some (takeWhile (\<lambda>c. \<not> sep c) s, rest))"

definition digit_of :: "char \<Rightarrow> int option" where
  "digit_of c = map_of (zip ''0123456789'' [0, 1, 2, 3, 4, 5, 6, 7, 8, 9]) c"

fun number_of :: "string \<Rightarrow> int \<Rightarrow> int option" where
  "number_of [] acc = Some acc"
| "number_of (c # cs) acc =
     (case digit_of c of None \<Rightarrow> None | Some d \<Rightarrow> number_of cs (acc * 10 + d))"

definition year_field :: "string \<Rightarrow> int option" where
  "year_field s = (if length s = 4 then number_of s 0 else None)"

definition num_field :: "string \<Rightarrow> int option" where
  "num_field s = (if length s = 1 \<or> length s = 2 then number_of s 0 else None)"

definition day_field :: "string \<Rightarrow> int option" where
  "day_field s =
     (case s of
        [a, b] \<Rightarrow> (if a = CHR '' '' then number_of [b] 0 else number_of s 0)
      | _ \<Rightarrow> num_field s)"

definition strptime :: "string \<Rightarrow> error + datetime" where
  "strptime s =
     (case cut (\<lambda>c. c = CHR ''-'') s of None \<Rightarrow> Inl ValueError | Some (yf, r1) \<Rightarrow>
     (case cut (\<lambda>c. c = CHR ''-'') r1 of None \<Rightarrow> Inl ValueError | Some (mf, r2) \<Rightarrow>
     (case cut (\<lambda>c. c = CHR ''T'' \<or> c = CHR ''t'') r2 of None \<Rightarrow> Inl ValueError | Some (df, r3) \<Rightarrow>
     (case cut (\<lambda>c. c = CHR '':'') r3 of None \<Rightarrow> Inl ValueError | Some (hf, r4) \<Rightarrow>
     (case cut (\<lambda>c. c = CHR '':'') r4 of None \<Rightarrow> Inl ValueError | Some (nf, sf) \<Rightarrow>
     (case (year_field yf, num_field mf, day_field df, num_field hf, num_field nf, num_field sf) of
        (Some y, Some m, Some d, Some hh, Some mm, Some ss) \<Rightarrow>
          if 1 \<le> y \<and> 1 \<le> m \<and> m \<le> 12 \<and> 1 \<le> d \<and> d \<le> days_in_month y m
             \<and> hh \<le> 23 \<and> mm \<le> 59 \<and> ss \<le> 59
          then Inr (mk_datetime y m d hh mm ss)
          else Inl ValueError
      | _ \<Rightarrow> Inl ValueError))))))"

subsection \<open>re.findall and urllib.parse.urlparse, as extract\_meetinglink uses them\<close>

text \<open>
  \<^verbatim>\<open>\S\<close> is any character but white space. The pattern is a string, so white space
  is what \<^verbatim>\<open>str.isspace\<close> accepts: among the ASCII characters the tab, line feed,
  vertical tab, form feed, carriage return, the four separators 0x1C to 0x1F and the
  space; beyond them U+0085, U+00A0, U+1680, U+2000 to U+200A, U+2028, U+2029, U+202F,
  U+205F and U+3000, here in their UTF-8 encoding. The encoding of no other character
  starts with one of these byte sequences.
\<close>

definition ascii_space :: "char \<Rightarrow> bool" where
  "ascii_space c =
     (c \<in> set [CHR 0x09, CHR 0x0A, CHR 0x0B, CHR 0x0C, CHR 0x0D,
               CHR 0x1C, CHR 0x1D, CHR 0x1E, CHR 0x1F, CHR 0x20])"

definition unicode_spaces :: "string list" where
  "unicode_spaces =
     [[CHR 0xC2, CHR 0x85], [CHR 0xC2, CHR 0xA0], [CHR 0xE1, CHR 0x9A, CHR 0x80],
      [CHR 0xE2, CHR 0x80, CHR 0x80], [CHR 0xE2, CHR 0x80, CHR 0x81],
      [CHR 0xE2, CHR 0x80, CHR 0x82], [CHR 0xE2, CHR 0x80, CHR 0x83],
      [CHR 0xE2, CHR 0x80, CHR 0x84], [CHR 0xE2, CHR 0x80, CHR 0x85],
      [CHR 0xE2, CHR 0x80, CHR 0x86], [CHR 0xE2, CHR 0x80, CHR 0x87],
      [CHR 0xE2, CHR 0x80, CHR 0x88], [CHR 0xE2, CHR 0x80, CHR 0x89],
      [CHR 0xE2, CHR 0x80, CHR 0x8A], [CHR 0xE2, CHR 0x80, CHR 0xA8],
      [CHR 0xE2, CHR 0x80, CHR 0xA9], [CHR 0xE2, CHR 0x80, CHR 0xAF],
      [CHR 0xE2, CHR 0x81, CHR 0x9F], [CHR 0xE3, CHR 0x80, CHR 0x80]]"

definition starts_with_space :: "string \<Rightarrow> bool" where
  "starts_with_space s =
     (case s of
        [] \<Rightarrow> False
      | c # cs \<Rightarrow> ascii_space c \<or> list_ex (\<lambda>p. take (length p) s = p) unicode_spaces)"

text \<open>\<^verbatim>\<open>\S+\<close> at the start of a text: the characters before the first white space.\<close>

fun non_space :: "string \<Rightarrow> string" where
  "non_space [] = []"
| "non_space (c # cs) = (if starts_with_space (c # cs) then [] else c # non_space cs)"

declare non_space.simps [simp del]

text \<open>
  \<^verbatim>\<open>re.findall(r'(https://\S+)', s)\<close>: the matches from left to right, each as long
  as possible, the search going on after the end of a match.
\<close>

function findall_https :: "string \<Rightarrow> string list" where
  "findall_https [] = []"
| "findall_https (c # cs) =
     (let tok = non_space (drop 8 (c # cs))
      in if take 8 (c # cs) = ''https://'' \<and> tok \<noteq> []
         then (''https://'' @ tok) # findall_https (drop (8 + length tok) (c # cs))
         else findall_https cs)"
  by pat_completeness auto
termination
  by (relation "measure length") auto

declare findall_https.simps [simp del]

text \<open>
  \<^verbatim>\<open>urlparse(url).netloc\<close> for a URL that starts with \<^verbatim>\<open>https://\<close>: what follows the
  two slashes up to the first slash, question mark or hash. A netloc with only one of
  the two square brackets is a ValueError ("Invalid IPv6 URL"); with both, what stands
  between the first opening bracket and the closing bracket that follows it is tested
  by \<^verbatim>\<open>_check_bracketed_host\<close>; a netloc with a character outside ASCII is tested by
  \<^verbatim>\<open>_checknetloc\<close>. Each failed test is a ValueError.
\<close>

definition urlparse_netloc :: "library \<Rightarrow> string \<Rightarrow> error + string" where
  "urlparse_netloc lib u =
     (let netloc = takeWhile (\<lambda>c. c \<notin> set ''/?#'') (drop 8 u);
          bracketed_host =
            takeWhile (\<lambda>c. c \<noteq> CHR '']'') (drop 1 (dropWhile (\<lambda>c. c \<noteq> CHR ''['') netloc))
      in if (CHR ''['' \<in> set netloc \<and> CHR '']'' \<notin> set netloc)
            \<or> (CHR '']'' \<in> set netloc \<and> CHR ''['' \<notin> set netloc)
         then Inl ValueError
         else if CHR ''['' \<in> set netloc \<and> CHR '']'' \<in> set netloc
                 \<and> \<not> bracketed_host_ok lib bracketed_host
         then Inl ValueError
         else if \<not> is_ascii netloc \<and> \<not> nfkc_netloc_ok lib netloc
         then Inl ValueError
         else Inr netloc)"

section \<open>The world around the service\<close>

text \<open>
  Every HTTP request goes to the environment, which answers it; the request is recorded.
  The environment's answer may depend on the request and on how many requests were made
  before it, which covers every sequence of answers a run can see. A transport failure
  (no answer at all) is outside the model. The environment also has the clock and the
  Python library that runs the service. The body that \<^verbatim>\<open>json.dumps\<close> writes is kept
  as the JSON value itself, and so is the body that \<^verbatim>\<open>r.json()\<close> parses (\<open>None\<close> when
  the body is not JSON).
\<close>

datatype http_method = GET | POST | PUT | DELETE

record request =
  rq_meth :: http_method
  rq_url :: string
  rq_headers :: "(string \<times> json) list"
  rq_data :: "json option"

record response =
  resp_ok :: bool
  resp_status_code :: int
  resp_text :: string
  resp_json :: "json option"

text \<open>The log keeps the records of level WARNING and above.\<close>

datatype level = WARNING | ERROR

datatype log_record = Log level string

text \<open>
  The state kept per integration,
  \<^verbatim>\<open>{'authorization', 'calendar_webhook', 'email_webhook', 'next_sync'}\<close>.
\<close>

record entry =
  st_authorization :: json
  st_calendar_webhook :: string
  st_email_webhook :: string
  st_next_sync :: datetime

text \<open>
  \<^verbatim>\<open>app.py\<close> keeps the state in the dictionary \<^verbatim>\<open>globalstate\<close>; \<^verbatim>\<open>application.py\<close>
  keeps it pickled in the file \<^verbatim>\<open>globalstate.pkl\<close>, which may not exist, or may exist and
  fail to open (an IOError other than FileNotFoundError).
\<close>

datatype pkl = Missing | Unreadable | Pickled "string \<Rightarrow> entry option"

record world =
  calls :: "request list"
  ticks :: nat
  logs :: "log_record list"
  globalstate :: "string \<Rightarrow> entry option"
  globalstate_pkl :: pkl

record env =
  respond :: "nat \<Rightarrow> request \<Rightarrow> response"
  clock :: "nat \<Rightarrow> datetime"
  python :: library

text \<open>
  A statement of the service either returns a value or raises, and changes the world.
  The functions that page through a listing take fuel, the number of pages they may
  fetch, and give \<open>None\<close> when it does not suffice.
\<close>

type_synonym 'a prog = "world \<Rightarrow> (error + 'a) \<times> world"

type_synonym 'a fprog = "world \<Rightarrow> ((error + 'a) \<times> world) option"

definition ret :: "'a \<Rightarrow> 'a prog" where
  "ret x = (\<lambda>w. (Inr x, w))"

definition raise :: "error \<Rightarrow> 'a prog" where
  "raise e = (\<lambda>w. (Inl e, w))"

definition lift :: "error + 'a \<Rightarrow> 'a prog" where
  "lift r = (\<lambda>w. (r, w))"

definition bnd :: "'a prog \<Rightarrow> ('a \<Rightarrow> 'b prog) \<Rightarrow> 'b prog" where
  "bnd m f = (\<lambda>w. case m w of (Inl e, w') \<Rightarrow> (Inl e, w') | (Inr x, w') \<Rightarrow> f x w')"

definition total :: "'a prog \<Rightarrow> 'a fprog" where
  "total m = (\<lambda>w. Some (m w))"

definition fbnd :: "'a fprog \<Rightarrow> ('a \<Rightarrow> 'b fprog) \<Rightarrow> 'b fprog" where
  "fbnd m f =
     (\<lambda>w. case m w of
             None \<Rightarrow> None
           | Some (Inl e, w') \<Rightarrow> Some (Inl e, w')
           | Some (Inr x, w') \<Rightarrow> f x w')"

definition requests_request :: "env \<Rightarrow> request \<Rightarrow> response prog" where
  "requests_request env rq =
     (\<lambda>w. (Inr (respond env (length (calls w)) rq), w\<lparr>calls := calls w @ [rq]\<rparr>))"

definition datetime_now :: "env \<Rightarrow> datetime prog" where
  "datetime_now env = (\<lambda>w. (Inr (clock env (ticks w)), w\<lparr>ticks := Suc (ticks w)\<rparr>))"

definition logging :: "level \<Rightarrow> string \<Rightarrow> unit prog" where
  "logging lvl msg = (\<lambda>w. (Inr (), w\<lparr>logs := logs w @ [Log lvl msg]\<rparr>))"

text \<open>The constructor of \<^verbatim>\<open>MiddlewareException\<close> logs the message as an error.\<close>

definition raise_MiddlewareException :: "string \<Rightarrow> 'a prog" where
  "raise_MiddlewareException msg =
     (\<lambda>w. (Inl (MiddlewareException msg), w\<lparr>logs := logs w @ [Log ERROR msg]\<rparr>))"

section \<open>The service\<close>

subsection \<open>Configuration\<close>

definition SUBSCRIPTION_CALLBACK_URL :: "variant \<Rightarrow> string" where
  "SUBSCRIPTION_CALLBACK_URL v =
     (case v of App \<Rightarrow> ''https://vs.breker.name''
              | Application \<Rightarrow> ''https://<app_name>.azurewebsites.net'')"

definition SUBSCRIPTION_CALLBACK_PATH :: string where
  "SUBSCRIPTION_CALLBACK_PATH = ''handle_subscription_callback''"

definition GRAPH_API_URL :: "variant \<Rightarrow> string" where
  "GRAPH_API_URL v =
     (case v of App \<Rightarrow> ''https://graph.microsoft.com/''
              | Application \<Rightarrow> ''https://graph.microsoft.com'')"

definition GLOBAL_STATE_PATH :: string where
  "GLOBAL_STATE_PATH = ''globalstate.pkl''"

definition HOURS_BETWEEN_FULLSYNC_AND_RESCUBSCRIBE :: int where
  "HOURS_BETWEEN_FULLSYNC_AND_RESCUBSCRIBE = 23"

definition HOURS_TO_SUBSCRIBE :: int where
  "HOURS_TO_SUBSCRIBE = 24"

definition CALENDAR_DAYS_TO_CACHE :: int where
  "CALENDAR_DAYS_TO_CACHE = 8"

subsection \<open>The state store\<close>

text \<open>
  \<^verbatim>\<open>get_data\<close>. In \<^verbatim>\<open>app.py\<close> a key that is not stored is a KeyError. In
  \<^verbatim>\<open>application.py\<close> it is a KeyError too when the file exists; a file that does not
  exist gives the empty dictionary (\<open>None\<close> here), and a file that fails to open a
  MiddlewareException.
\<close>

definition get_data :: "variant \<Rightarrow> string \<Rightarrow> entry option prog" where
  "get_data v k =
     (\<lambda>w. case v of
             App \<Rightarrow>
               (case globalstate w k of
                  None \<Rightarrow> raise KeyError w
                | Some e \<Rightarrow> ret (Some e) w)
           | Application \<Rightarrow>
               (case globalstate_pkl w of
                  Pickled d \<Rightarrow>
                    (case d k of None \<Rightarrow> raise KeyError w | Some e \<Rightarrow> ret (Some e) w)
                | Missing \<Rightarrow> ret None w
                | Unreadable \<Rightarrow>
                    raise_MiddlewareException ''Failed to open MA client state: IOError'' w))"

text \<open>
  \<^verbatim>\<open>store_data\<close>. In \<^verbatim>\<open>application.py\<close> the file is read, the entry is set, and the
  dictionary is written back; when the file cannot be read the dictionary written holds
  the new entry only, and when it cannot be written a MiddlewareException is raised.
\<close>

definition store_data :: "variant \<Rightarrow> string \<Rightarrow> entry \<Rightarrow> unit prog" where
  "store_data v k state =
     (\<lambda>w. case v of
             App \<Rightarrow> ret () (w\<lparr>globalstate := (globalstate w)(k \<mapsto> state)\<rparr>)
           | Application \<Rightarrow>
               (case globalstate_pkl w of
                  Pickled d \<Rightarrow> ret () (w\<lparr>globalstate_pkl := Pickled (d(k \<mapsto> state))\<rparr>)
                | Missing \<Rightarrow> ret () (w\<lparr>globalstate_pkl := Pickled (Map.empty(k \<mapsto> state))\<rparr>)
                | Unreadable \<Rightarrow>
                    raise_MiddlewareException ''Failed to store MA client state: IOError'' w))"

subsection \<open>Utility functions\<close>

text \<open>
  \<^verbatim>\<open>get_headers\<close>. In \<^verbatim>\<open>app.py\<close> it takes the bearer credential; in
  \<^verbatim>\<open>application.py\<close> it picks three headers of the incoming request, and a missing one is
  a KeyError. The callback path of \<^verbatim>\<open>application.py\<close> writes the dictionary of the first
  form out in place.
\<close>

definition get_headers :: "json \<Rightarrow> (string \<times> json) list" where
  "get_headers authorization =
     [(''Authorization'', authorization), (''Content-type'', JStr ''application/json'')]"

definition headers_getitem :: "(string \<times> string) list \<Rightarrow> string \<Rightarrow> error + json" where
  "headers_getitem hs k = (case map_of hs k of None \<Rightarrow> Inl KeyError | Some x \<Rightarrow> Inr (JStr x))"

definition headers_get :: "(string \<times> string) list \<Rightarrow> string \<Rightarrow> json" where
  "headers_get hs k = (case map_of hs k of None \<Rightarrow> JNull | Some x \<Rightarrow> JStr x)"

definition get_headers_request :: "(string \<times> string) list \<Rightarrow> (string \<times> json) list prog" where
  "get_headers_request hs =
     bnd (lift (headers_getitem hs ''Authorization'')) (\<lambda>a.
     bnd (lift (headers_getitem hs ''Accept'')) (\<lambda>b.
     bnd (lift (headers_getitem hs ''Content-Type'')) (\<lambda>c.
       ret [(''Authorization'', a), (''Accept'', b), (''Content-Type'', c)])))"

text \<open>
  \<^verbatim>\<open>odata_getone\<close>. The URL is a Python value, since \<^verbatim>\<open>odata_get\<close> passes on whatever
  the upstream gave as next link; \<^verbatim>\<open>requests\<close> refuses one that is not a string.
\<close>

definition odata_getone :: "env \<Rightarrow> json \<Rightarrow> (string \<times> json) list \<Rightarrow> json prog" where
  "odata_getone env url headers =
     (case url of
        JStr u \<Rightarrow>
          bnd (requests_request env
                 \<lparr>rq_meth = GET, rq_url = u, rq_headers = headers, rq_data = None\<rparr>) (\<lambda>r.
            if \<not> resp_ok r
            then bnd (logging WARNING
                        (''Fetch url '' @ u @ '' hit '' @ str_int (resp_status_code r)))
                   (\<lambda>_. ret JNull)
            else (case resp_json r of
                    None \<Rightarrow> raise ValueError
                  | Some rjson \<Rightarrow>
                      bnd (lift (py_in ''error'' rjson)) (\<lambda>is_error.
                        if is_error
                        then bnd (logging WARNING
                                    (''Fetching of '' @ u @ '' returned error '' @ resp_text r))
                               (\<lambda>_. ret JNull)
                        else ret rjson)))
      | _ \<Rightarrow> raise RequestException)"

text \<open>
  \<^verbatim>\<open>odata_get\<close>: the loop \<^verbatim>\<open>while url\<close>, with the number of pages it may still
  fetch. It returns the Python value \<^verbatim>\<open>all_values\<close>.
\<close>

fun odata_get_loop ::
  "env \<Rightarrow> (string \<times> json) list \<Rightarrow> nat \<Rightarrow> json \<Rightarrow> json list \<Rightarrow> json fprog" where
  "odata_get_loop env headers 0 url all_values =
     (if truthy url then (\<lambda>w. None) else total (ret (JList all_values)))"
| "odata_get_loop env headers (Suc n) url all_values =
     (if \<not> truthy url then total (ret (JList all_values))
      else
        fbnd (total (odata_getone env url headers)) (\<lambda>rjson.
          if truthy rjson
          then
            fbnd (total (lift (py_getitem rjson ''value''))) (\<lambda>page.
            fbnd (total (lift (py_iter page))) (\<lambda>items.
              (case py_getitem rjson ''@odata.nextLink'' of
                 Inl KeyError \<Rightarrow> odata_get_loop env headers n JNull (all_values @ items)
               | Inl e \<Rightarrow> total (raise e)
               | Inr next_url \<Rightarrow> odata_get_loop env headers n next_url (all_values @ items))))
          else odata_get_loop env headers n JNull all_values))"

definition odata_get :: "env \<Rightarrow> nat \<Rightarrow> json \<Rightarrow> (string \<times> json) list \<Rightarrow> json fprog" where
  "odata_get env fuel url headers = odata_get_loop env headers fuel url []"

text \<open>\<^verbatim>\<open>get_all_users\<close>: the body of its loop, then the loop, then the function.\<close>

definition resolve_manager ::
  "variant \<Rightarrow> env \<Rightarrow> (string \<times> json) list \<Rightarrow> json \<Rightarrow> json prog" where
  "resolve_manager v env headers user =
     bnd (lift (py_getitem user ''id'')) (\<lambda>uid.
     bnd (odata_getone env
            (JStr (GRAPH_API_URL v @ ''/v1.0/users/'' @ py_str uid @ ''/manager?$select=mail''))
            headers) (\<lambda>manager.
     bnd (lift (if truthy manager then py_in ''mail'' manager else Inr False)) (\<lambda>has_mail.
       if has_mail
       then bnd (lift (py_getitem manager ''mail'')) (\<lambda>m.
            bnd (lift (py_lower (python env) m)) (\<lambda>l.
              lift (py_setitem user ''manager_mail'' (JStr l))))
       else lift (py_setitem user ''manager_mail'' (JStr '''')))))"

fun resolve_managers ::
  "variant \<Rightarrow> env \<Rightarrow> (string \<times> json) list \<Rightarrow> json list \<Rightarrow> json list prog" where
  "resolve_managers v env headers [] = ret []"
| "resolve_managers v env headers (user # rest) =
     bnd (resolve_manager v env headers user) (\<lambda>user'.
     bnd (resolve_managers v env headers rest) (\<lambda>rest'.
       ret (user' # rest')))"

definition get_all_users ::
  "variant \<Rightarrow> env \<Rightarrow> nat \<Rightarrow> (string \<times> json) list \<Rightarrow> json list fprog" where
  "get_all_users v env fuel headers =
     fbnd (odata_get env fuel (JStr (GRAPH_API_URL v @ ''/v1.0/users'')) headers) (\<lambda>users.
       case users of
         JNull \<Rightarrow> total (raise_MiddlewareException ''Failed to get users'')
       | JList us \<Rightarrow> total (resolve_managers v env headers us)
       | _ \<Rightarrow> total (raise TypeError))"

text \<open>\<^verbatim>\<open>extract_meetinglink\<close>: the loop over the URLs found, then the function.\<close>

fun first_meetinglink :: "library \<Rightarrow> string list \<Rightarrow> error + json" where
  "first_meetinglink lib [] = Inr JNull"
| "first_meetinglink lib (u # urls) =
     (case urlparse_netloc lib u of
        Inl e \<Rightarrow> Inl e
      | Inr netloc \<Rightarrow>
          if netloc \<in> set [''gotomeet.me'', ''www.gotomeet.me'', ''global.gotomeeting.com'',
                           ''teams.microsoft.com'']
             \<or> endswith netloc ''.webex.com''
          then Inr (JStr u)
          else first_meetinglink lib urls)"

definition extract_meetinglink :: "library \<Rightarrow> string \<Rightarrow> error + json" where
  "extract_meetinglink lib astring = first_meetinglink lib (findall_https astring)"

subsection \<open>Pushing to a cache webhook\<close>

text \<open>
  Both \<^verbatim>\<open>process_message\<close> and \<^verbatim>\<open>parse_event\<close> end with the same statements: in
  \<^verbatim>\<open>app.py\<close> the loop \<^verbatim>\<open>for i in range(0, 5): r = requests.put(...)\<close>, in
  \<^verbatim>\<open>application.py\<close> one \<^verbatim>\<open>requests.put\<close>; then a warning when the last response
  is not ok.
\<close>

fun put_again :: "env \<Rightarrow> request \<Rightarrow> nat \<Rightarrow> response \<Rightarrow> response prog" where
  "put_again env rq 0 r = ret r"
| "put_again env rq (Suc n) r = bnd (requests_request env rq) (put_again env rq n)"

definition put_to_cache :: "variant \<Rightarrow> env \<Rightarrow> string \<Rightarrow> json \<Rightarrow> unit prog" where
  "put_to_cache v env webhook body =
     (let rq = \<lparr>rq_meth = PUT, rq_url = webhook, rq_headers = [], rq_data = Some body\<rparr>
      in bnd (requests_request env rq) (\<lambda>r1.
         bnd (case v of App \<Rightarrow> put_again env rq 4 r1 | Application \<Rightarrow> ret r1) (\<lambda>r.
           if \<not> resp_ok r
           then logging WARNING (''Failed to put to '' @ webhook @ '': '' @ resp_text r)
           else ret ())))"

subsection \<open>The change processor\<close>

definition parse_event :: "variant \<Rightarrow> env \<Rightarrow> json \<Rightarrow> json \<Rightarrow> string \<Rightarrow> unit prog" where
  "parse_event v env event owner calendar_webhook =
     bnd (lift (py_getitem event ''start'')) (\<lambda>start.
     bnd (lift (py_getitem start ''dateTime'')) (\<lambda>date_time.
     bnd (lift (py_split_first date_time CHR ''.'')) (\<lambda>whole_seconds.
     bnd (lift (strptime whole_seconds)) (\<lambda>eventdt.
     bnd (datetime_now env) (\<lambda>now1.
       if eventdt < now1 - timedelta_days 1 then ret ()
       else
         bnd (datetime_now env) (\<lambda>now2.
           if eventdt > now2 + timedelta_days CALENDAR_DAYS_TO_CACHE then ret ()
           else
             bnd (lift (py_getitem event ''location'')) (\<lambda>location.
             bnd (lift (py_getitem location ''displayName'')) (\<lambda>display_name.
             bnd (lift (py_concat [] display_name)) (\<lambda>name.
             bnd (lift (py_getitem event ''body'')) (\<lambda>body.
             bnd (lift (py_getitem body ''content'')) (\<lambda>content.
             bnd (lift (py_concat (name @ ''^'') content)) (\<lambda>astring.
             bnd (lift (extract_meetinglink (python env) astring)) (\<lambda>meeting_link.
             bnd (lift (py_update event [(''owner'', owner), (''meetingLink'', meeting_link)]))
               (\<lambda>event'.
             bnd (lift (py_getitem event' ''id'')) (\<lambda>_.
               put_to_cache v env calendar_webhook event')))))))))))))))"

definition process_message ::
  "variant \<Rightarrow> env \<Rightarrow> entry \<Rightarrow> string \<Rightarrow> string \<Rightarrow> string \<Rightarrow> unit prog" where
  "process_message v env globalstateentry mail manager_mail odata_id =
     bnd (odata_getone env
            (JStr (GRAPH_API_URL v @ ''/v1.0/'' @ odata_id @ ''?''
                   @ ''$select=id,subject,from,toRecipients,''
                   @ ''importance,sentDateTime,webLink,isRead''))
            (get_headers (st_authorization globalstateentry))) (\<lambda>jsondata.
       if \<not> truthy jsondata
       then raise_MiddlewareException
              (''Failed to resolve message in process_message '' @ odata_id)
       else
         bnd (lift (py_getitem jsondata ''from'')) (\<lambda>sender.
         bnd (lift (py_getitem sender ''emailAddress'')) (\<lambda>email_address.
         bnd (lift (py_getitem email_address ''address'')) (\<lambda>address.
         bnd (lift (py_lower (python env) address)) (\<lambda>lowered.
         bnd (if manager_mail = lowered then ret False
              else bnd (lift (py_getitem jsondata ''importance'')) (\<lambda>importance.
                     ret (importance \<noteq> JStr ''high''))) (\<lambda>filtered.
           if filtered then ret ()
           else
             bnd (lift (py_update jsondata
                          [(''owner'', JStr mail),
                           (''is_from_manager'', JBool (manager_mail = lowered))]))
               (\<lambda>jsondata'.
             bnd (lift (py_getitem jsondata' ''id'')) (\<lambda>_.
               put_to_cache v env (st_email_webhook globalstateentry) jsondata'))))))))"

definition process_event :: "variant \<Rightarrow> env \<Rightarrow> entry \<Rightarrow> string \<Rightarrow> string \<Rightarrow> unit prog" where
  "process_event v env globalstateentry mail odata_id =
     bnd (odata_getone env
            (JStr (GRAPH_API_URL v @ ''/v1.0/'' @ odata_id @ ''?''
                   @ ''$select=id,subject,location,organizer,start,''
                   @ ''end,weblink,responsestatus,body,attendees,''
                   @ ''isCancelled''))
            (get_headers (st_authorization globalstateentry))) (\<lambda>jsondata.
       if \<not> truthy jsondata
       then raise_MiddlewareException (''Failed to resolve event in process_event '' @ odata_id)
       else parse_event v env jsondata (JStr mail) (st_calendar_webhook globalstateentry))"

subsection \<open>The bulk pull of the calendars\<close>

text \<open>
  \<^verbatim>\<open>update_calendar\<close>: the loop over the events of one user, the body of the loop over
  the users, that loop, and the function. The error message of the \<^verbatim>\<open>None\<close> branch is
  not an f-string in the source, so its braces are logged as they stand. The count of
  the events is logged as a warning in \<^verbatim>\<open>app.py\<close> and at debug level in
  \<^verbatim>\<open>application.py\<close>.
\<close>

fun parse_events ::
  "variant \<Rightarrow> env \<Rightarrow> json \<Rightarrow> string \<Rightarrow> json list \<Rightarrow> unit prog" where
  "parse_events v env user calendar_webhook [] = ret ()"
| "parse_events v env user calendar_webhook (event # rest) =
     bnd (lift (py_getitem user ''mail'')) (\<lambda>owner.
     bnd (parse_event v env event owner calendar_webhook) (\<lambda>_.
       parse_events v env user calendar_webhook rest))"

definition update_calendar_user ::
  "variant \<Rightarrow> env \<Rightarrow> nat \<Rightarrow> (string \<times> json) list \<Rightarrow> string \<Rightarrow> string \<Rightarrow> string
     \<Rightarrow> json \<Rightarrow> unit fprog" where
  "update_calendar_user v env fuel headers startdatetime_iso enddatetime_iso calendar_webhook user =
     fbnd (total (lift (py_getitem user ''id''))) (\<lambda>uid.
     fbnd (odata_get env fuel
             (JStr (''https://graph.microsoft.com/v1.0/''
                    @ ''users/'' @ py_str uid @ ''/calendarview?''
                    @ ''startdatetime='' @ startdatetime_iso
                    @ ''&enddatetime='' @ enddatetime_iso
                    @ ''&select=id,subject,location,organizer,start,''
                    @ ''end,weblink,responsestatus,body,attendees,''
                    @ ''isCancelled''))
             headers) (\<lambda>events.
       if events = JNull
       then total (logging ERROR
                     (''Failed to get events user user {user['' @ quoted ''id'' @ '']}''))
       else
         fbnd (total (lift (py_iter events))) (\<lambda>es.
         fbnd (total (case v of
                        App \<Rightarrow> logging WARNING
                                 (''Got '' @ str_int (int (length es)) @ '' events'')
                      | Application \<Rightarrow> ret ())) (\<lambda>_.
           total (parse_events v env user calendar_webhook es)))))"

fun update_calendar_users ::
  "variant \<Rightarrow> env \<Rightarrow> nat \<Rightarrow> (string \<times> json) list \<Rightarrow> string \<Rightarrow> string \<Rightarrow> string
     \<Rightarrow> json list \<Rightarrow> unit fprog" where
  "update_calendar_users v env fuel headers s_iso e_iso calendar_webhook [] = total (ret ())"
| "update_calendar_users v env fuel headers s_iso e_iso calendar_webhook (user # rest) =
     fbnd (update_calendar_user v env fuel headers s_iso e_iso calendar_webhook user) (\<lambda>_.
       update_calendar_users v env fuel headers s_iso e_iso calendar_webhook rest)"

definition update_calendar ::
  "variant \<Rightarrow> env \<Rightarrow> nat \<Rightarrow> (string \<times> json) list \<Rightarrow> json list \<Rightarrow> string \<Rightarrow> unit fprog" where
  "update_calendar v env fuel headers users calendar_webhook =
     fbnd (total (datetime_now env)) (\<lambda>startdatetime.
       update_calendar_users v env fuel headers
         (isoformat startdatetime)
         (isoformat (startdatetime + timedelta_days CALENDAR_DAYS_TO_CACHE))
         calendar_webhook users)"

subsection \<open>The subscription manager\<close>

text \<open>\<^verbatim>\<open>wipe_subscriptions\<close>: the loop over the subscriptions listed, then the function.\<close>

fun delete_subscriptions ::
  "variant \<Rightarrow> env \<Rightarrow> (string \<times> json) list \<Rightarrow> json list \<Rightarrow> unit prog" where
  "delete_subscriptions v env headers [] = ret ()"
| "delete_subscriptions v env headers (subscription # rest) =
     bnd (lift (py_getitem subscription ''notificationUrl'')) (\<lambda>notification_url.
     bnd (lift (py_startswith notification_url (SUBSCRIPTION_CALLBACK_URL v))) (\<lambda>own.
       if \<not> own then delete_subscriptions v env headers rest
       else
         bnd (lift (py_getitem subscription ''id'')) (\<lambda>sid.
         bnd (requests_request env
                \<lparr>rq_meth = DELETE,
                 rq_url = GRAPH_API_URL v @ ''/v1.0/subscriptions/'' @ py_str sid,
                 rq_headers = headers, rq_data = None\<rparr>) (\<lambda>r.
           if \<not> resp_ok r
           then raise_MiddlewareException
                  (''Failed to delete subscription '' @ py_str sid @ '' due to ''
                   @ str_int (resp_status_code r))
           else delete_subscriptions v env headers rest))))"

definition wipe_subscriptions ::
  "variant \<Rightarrow> env \<Rightarrow> nat \<Rightarrow> (string \<times> json) list \<Rightarrow> unit fprog" where
  "wipe_subscriptions v env fuel headers =
     fbnd (odata_get env fuel
             (JStr (GRAPH_API_URL v @ ''/v1.0/subscriptions/?'' @ ''select=id,notificationUrl''))
             headers) (\<lambda>subscriptions.
       if subscriptions = JNull
       then total (raise_MiddlewareException ''Failed to wipe subscriptions'')
       else
         fbnd (total (lift (py_iter subscriptions))) (\<lambda>subs.
           total (delete_subscriptions v env headers subs)))"

text \<open>
  \<^verbatim>\<open>register_subscriptions\<close>: the body of the inner loop (one subscription of one
  user), the loop over the users, and the function. \<^verbatim>\<open>application.py\<close> skips a user
  whose mail is \<^verbatim>\<open>None\<close>; \<^verbatim>\<open>app.py\<close> has no such test.
\<close>

definition subscribe ::
  "variant \<Rightarrow> env \<Rightarrow> (string \<times> json) list \<Rightarrow> string \<Rightarrow> string \<Rightarrow> string \<Rightarrow> json
     \<Rightarrow> string \<Rightarrow> unit prog" where
  "subscribe v env headers hkey0 hkey1 untilstring user subscription =
     bnd (lift (py_getitem user ''id'')) (\<lambda>uid.
     bnd (lift (py_getitem user ''mail'')) (\<lambda>mail.
     bnd (lift (py_concat (hkey0 @ ''^'') mail)) (\<lambda>prefix_and_mail.
     bnd (lift (py_getitem user ''manager_mail'')) (\<lambda>manager_mail.
     bnd (lift (py_concat (prefix_and_mail @ ''^'') manager_mail)) (\<lambda>client_state.
     bnd (requests_request env
            \<lparr>rq_meth = POST,
             rq_url = GRAPH_API_URL v @ ''/v1.0/subscriptions'',
             rq_headers = headers,
             rq_data = Some (JDict
               [(''changeType'', JStr ''created,updated,deleted''),
                (''notificationUrl'',
                   JStr (SUBSCRIPTION_CALLBACK_URL v @ ''/'' @ SUBSCRIPTION_CALLBACK_PATH @ ''/''
                         @ subscription @ ''/'' @ hkey1)),
                (''resource'',
                   JStr (''/users/'' @ py_str uid @ ''/'' @ subscription
                         @ (case v of App \<Rightarrow> ''/'' | Application \<Rightarrow> ''''))),
                (''expirationDateTime'', JStr untilstring),
                (''clientState'', JStr client_state)])\<rparr>) (\<lambda>r.
       if \<not> resp_ok r
       then logging WARNING
              (''Unable to subscribe '' @ py_str mail @ '' for '' @ subscription @ '': ''
               @ resp_text r)
       else ret ()))))))"

fun register_users ::
  "variant \<Rightarrow> env \<Rightarrow> (string \<times> json) list \<Rightarrow> string \<Rightarrow> string \<Rightarrow> string \<Rightarrow> json list
     \<Rightarrow> unit prog" where
  "register_users v env headers hkey0 hkey1 untilstring [] = ret ()"
| "register_users v env headers hkey0 hkey1 untilstring (user # rest) =
     bnd (case v of
            App \<Rightarrow> ret False
          | Application \<Rightarrow> bnd (lift (py_getitem user ''mail'')) (\<lambda>mail. ret (mail = JNull)))
       (\<lambda>skipped.
         if skipped then register_users v env headers hkey0 hkey1 untilstring rest
         else
           bnd (subscribe v env headers hkey0 hkey1 untilstring user ''messages'') (\<lambda>_.
           bnd (subscribe v env headers hkey0 hkey1 untilstring user ''events'') (\<lambda>_.
             register_users v env headers hkey0 hkey1 untilstring rest)))"

definition register_subscriptions ::
  "variant \<Rightarrow> env \<Rightarrow> (string \<times> json) list \<Rightarrow> string \<Rightarrow> string \<Rightarrow> json list \<Rightarrow> unit prog" where
  "register_subscriptions v env headers hkey0 hkey1 users =
     bnd (datetime_now env) (\<lambda>now.
       register_users v env headers hkey0 hkey1
         (strftime_until (now + timedelta_hours HOURS_TO_SUBSCRIBE)) users)"

subsection \<open>The trigger endpoint\<close>

text \<open>
  What the handlers read of the incoming Flask request: the query parameters, the
  headers, and the body (\<open>None\<close> when \<^verbatim>\<open>json.loads\<close> cannot parse it). A handler
  returns a \<^verbatim>\<open>Response\<close> with its body, status and mimetype.
\<close>

record flask_request =
  args :: "(string \<times> string) list"
  in_headers :: "(string \<times> string) list"
  in_data :: "json option"

datatype flask_response = Response string int "string option"

definition ok_body :: string where
  \<open>ok_body = ''{"status": "ok"}''\<close>

definition args_getitem :: "(string \<times> string) list \<Rightarrow> string \<Rightarrow> error + string" where
  "args_getitem as k = (case map_of as k of None \<Rightarrow> Inl KeyError | Some x \<Rightarrow> Inr x)"

text \<open>
  The first statements of \<^verbatim>\<open>trigger_middleware\<close>: the stored \<^verbatim>\<open>next_sync\<close>, or
  \<open>None\<close> for the value 0 that stands for "never synced". Only a KeyError is caught;
  \<^verbatim>\<open>application.py\<close> logs a warning then.
\<close>

definition stored_next_sync ::
  "variant \<Rightarrow> string \<Rightarrow> string \<Rightarrow> string \<Rightarrow> datetime option prog" where
  "stored_next_sync v full hkey0 hkey1 =
     (\<lambda>w. case get_data v full w of
             (Inr (Some state), w') \<Rightarrow> ret (Some (st_next_sync state)) w'
           | (Inl e, w') \<Rightarrow>
               (if e = KeyError
                then (case v of
                        App \<Rightarrow> ret None w'
                      | Application \<Rightarrow>
                          bnd (logging WARNING
                                 (''Received unexpected hkey ''
                                  @ py_repr (JList [JStr hkey0, JStr hkey1])))
                            (\<lambda>_. ret None) w')
                else (Inl e, w'))
           | (Inr None, w') \<Rightarrow>
               (case v of
                  App \<Rightarrow> ret None w'
                | Application \<Rightarrow>
                    bnd (logging WARNING
                           (''Received unexpected hkey ''
                            @ py_repr (JList [JStr hkey0, JStr hkey1])))
                      (\<lambda>_. ret None) w'))"

text \<open>
  The body of \<^verbatim>\<open>if next_sync == 0 or datetime.now() >= next_sync\<close>: the full resync.
  Its value is the new \<^verbatim>\<open>next_sync\<close>. In \<^verbatim>\<open>app.py\<close> each step builds the same headers
  from the bearer credential; in \<^verbatim>\<open>application.py\<close> they are built once from the
  request.
\<close>

definition resync ::
  "variant \<Rightarrow> env \<Rightarrow> nat \<Rightarrow> flask_request \<Rightarrow> string \<Rightarrow> string \<Rightarrow> datetime fprog" where
  "resync v env fuel request calendar_webhook email_webhook =
     fbnd (total (case v of
                    App \<Rightarrow> ret (get_headers (headers_get (in_headers request) ''Authorization''))
                  | Application \<Rightarrow> get_headers_request (in_headers request))) (\<lambda>headers.
     fbnd (get_all_users v env fuel headers) (\<lambda>users.
     fbnd (update_calendar v env fuel headers users calendar_webhook) (\<lambda>_.
     fbnd (wipe_subscriptions v env fuel headers) (\<lambda>_.
     fbnd (total (register_subscriptions v env headers
                    (fst (split_hkey calendar_webhook email_webhook))
                    (snd (split_hkey calendar_webhook email_webhook)) users)) (\<lambda>_.
     fbnd (total (datetime_now env)) (\<lambda>now.
       total (ret (now + timedelta_hours HOURS_BETWEEN_FULLSYNC_AND_RESCUBSCRIBE))))))))"

definition trigger_middleware ::
  "variant \<Rightarrow> env \<Rightarrow> nat \<Rightarrow> flask_request \<Rightarrow> flask_response fprog" where
  "trigger_middleware v env fuel request =
     fbnd (total (lift (args_getitem (args request) ''calendar_webhook''))) (\<lambda>calendar_webhook.
     fbnd (total (lift (args_getitem (args request) ''email_webhook''))) (\<lambda>email_webhook.
     fbnd (total (stored_next_sync v (full_hkey calendar_webhook email_webhook)
                    (fst (split_hkey calendar_webhook email_webhook))
                    (snd (split_hkey calendar_webhook email_webhook)))) (\<lambda>stored.
     fbnd (case stored of
             None \<Rightarrow> resync v env fuel request calendar_webhook email_webhook
           | Some next_sync \<Rightarrow>
               fbnd (total (datetime_now env)) (\<lambda>now.
                 if now \<ge> next_sync
                 then resync v env fuel request calendar_webhook email_webhook
                 else total (ret next_sync))) (\<lambda>next_sync.
     fbnd (total (store_data v (full_hkey calendar_webhook email_webhook)
                    \<lparr>st_authorization = headers_get (in_headers request) ''Authorization'',
                     st_calendar_webhook = calendar_webhook,
                     st_email_webhook = email_webhook,
                     st_next_sync = next_sync\<rparr>)) (\<lambda>_.
       total (ret (Response ok_body 200 None)))))))"

subsection \<open>The change-notification callback endpoint\<close>

definition handle_subscription_callback_value ::
  "variant \<Rightarrow> env \<Rightarrow> string \<Rightarrow> string \<Rightarrow> json \<Rightarrow> flask_response option prog" where
  "handle_subscription_callback_value v env subscription hkey1 item =
     bnd (lift (py_getitem item ''clientState'')) (\<lambda>client_state.
     bnd (lift (py_split client_state CHR ''^'')) (\<lambda>parts.
       case parts of
         [hkey0, mail, manager_mail] \<Rightarrow>
           (\<lambda>w. case get_data v (rebuild_hkey hkey0 hkey1) w of
                   (Inl e, w') \<Rightarrow>
                     (if e = KeyError
                      then bnd (logging WARNING
                                  (''Received unexpected hkey '' @ rebuild_hkey hkey0 hkey1))
                             (\<lambda>_. ret (Some (Response [] 202 None))) w'
                      else (Inl e, w'))
                 | (Inr None, w') \<Rightarrow>
                     raise_MiddlewareException
                       (GLOBAL_STATE_PATH @ '' is empty at point of receiving webhook callback'')
                       w'
                 | (Inr (Some globalstateentry), w') \<Rightarrow>
                     bnd (lift (py_getitem item ''resourceData'')) (\<lambda>resource_data.
                     bnd (lift (py_getitem resource_data ''@odata.id'')) (\<lambda>odata_id.
                     bnd (lift (py_rsplit_last odata_id CHR ''/'')) (\<lambda>shortid.
                       if subscription = ''messages''
                       then
                         bnd (lift (py_getitem item ''changeType'')) (\<lambda>change_type.
                           if change_type = JStr ''deleted''
                           then bnd (requests_request env
                                       \<lparr>rq_meth = DELETE,
                                        rq_url = st_email_webhook globalstateentry
                                                 @ ''/?id='' @ shortid,
                                        rq_headers = [], rq_data = None\<rparr>)
                                  (\<lambda>_. ret None)
                           else bnd (process_message v env globalstateentry mail manager_mail
                                       (py_str odata_id))
                                  (\<lambda>_. ret None))
                       else if subscription = ''events''
                       then
                         bnd (lift (py_getitem item ''changeType'')) (\<lambda>change_type.
                           if change_type = JStr ''deleted''
                           then bnd (requests_request env
                                       \<lparr>rq_meth = DELETE,
                                        rq_url = st_calendar_webhook globalstateentry
                                                 @ ''/?id='' @ shortid,
                                        rq_headers = [], rq_data = None\<rparr>)
                                  (\<lambda>_. ret None)
                           else bnd (process_event v env globalstateentry mail (py_str odata_id))
                                  (\<lambda>_. ret None))
                       else raise_MiddlewareException ''Unknown subscription type''))) w')
       | _ \<Rightarrow> raise ValueError))"

text \<open>
  The loop of \<^verbatim>\<open>handle_subscription_callback\<close>: only a MiddlewareException of an
  item is caught.
\<close>

fun callback_items :: "variant \<Rightarrow> env \<Rightarrow> string \<Rightarrow> string \<Rightarrow> json list \<Rightarrow> unit prog" where
  "callback_items v env subscription hkey1 [] = ret ()"
| "callback_items v env subscription hkey1 (item # rest) =
     (\<lambda>w. case handle_subscription_callback_value v env subscription hkey1 item w of
             (Inl (MiddlewareException msg), w') \<Rightarrow>
               callback_items v env subscription hkey1 rest w'
           | (Inl e, w') \<Rightarrow> (Inl e, w')
           | (Inr _, w') \<Rightarrow> callback_items v env subscription hkey1 rest w')"

definition handle_subscription_callback ::
  "variant \<Rightarrow> env \<Rightarrow> string \<Rightarrow> string \<Rightarrow> flask_request \<Rightarrow> flask_response prog" where
  "handle_subscription_callback v env subscription hkey1 request =
     (case map_of (args request) ''validationToken'' of
        Some token \<Rightarrow> ret (Response token 200 (Some ''text/plain; charset=utf-8''))
      | None \<Rightarrow>
          bnd (lift (case in_data request of None \<Rightarrow> Inl ValueError | Some j \<Rightarrow> Inr j))
            (\<lambda>jsonbody.
          bnd (lift (py_getitem jsonbody ''value'')) (\<lambda>batch.
          bnd (lift (py_iter batch)) (\<lambda>items.
          bnd (callback_items v env subscription hkey1 items) (\<lambda>_.
            ret (Response [] 202 None))))))"

section \<open>Notions used to state the properties\<close>

text \<open>
  The state store has no entry for a key: in \<^verbatim>\<open>app.py\<close> the dictionary lacks it; in
  \<^verbatim>\<open>application.py\<close> the file exists and lacks it, or the file does not exist.
\<close>

definition key_absent :: "variant \<Rightarrow> string \<Rightarrow> world \<Rightarrow> bool" where
  "key_absent v k w =
     (case v of
        App \<Rightarrow> globalstate w k = None
      | Application \<Rightarrow>
          (case globalstate_pkl w of
             Pickled d \<Rightarrow> d k = None
           | Missing \<Rightarrow> True
           | Unreadable \<Rightarrow> False))"

text \<open>What the callback logs for an item whose key the store has no entry for.\<close>

definition absent_key_log :: "variant \<Rightarrow> string \<Rightarrow> world \<Rightarrow> log_record" where
  "absent_key_log v k w =
     (if v = Application \<and> globalstate_pkl w = Missing
      then Log ERROR ''globalstate.pkl is empty at point of receiving webhook callback''
      else Log WARNING (''Received unexpected hkey '' @ k))"





text \<open>The entry that the state store of a variant holds for a key, if any.\<close>

definition stored :: "variant \<Rightarrow> string \<Rightarrow> world \<Rightarrow> entry option" where
  "stored v k w =
     (case v of
        App \<Rightarrow> globalstate w k
      | Application \<Rightarrow>
          (case globalstate_pkl w of Pickled d \<Rightarrow> d k | Missing \<Rightarrow> None | Unreadable \<Rightarrow> None))"

text \<open>
  A run from \<open>w\<close> to \<open>w'\<close> only adds requests, each of a given kind, reads the
  clock, and leaves the state store as it is. A statement \<open>runs\<close> so when every run
  of it does, raising only errors of a given kind.
\<close>

definition grows :: "(request \<Rightarrow> bool) \<Rightarrow> world \<Rightarrow> world \<Rightarrow> bool" where
  "grows P w w' =
     ((\<exists>cs. calls w' = calls w @ cs \<and> list_all P cs)
      \<and> globalstate w' = globalstate w
      \<and> globalstate_pkl w' = globalstate_pkl w
      \<and> ticks w \<le> ticks w')"

definition runs :: "(request \<Rightarrow> bool) \<Rightarrow> (error \<Rightarrow> bool) \<Rightarrow> 'a prog \<Rightarrow> bool" where
  "runs P E m = (\<forall>w r w'. m w = (r, w') \<longrightarrow> grows P w w' \<and> (\<forall>e. r = Inl e \<longrightarrow> E e))"

definition fruns :: "(request \<Rightarrow> bool) \<Rightarrow> (error \<Rightarrow> bool) \<Rightarrow> 'a fprog \<Rightarrow> bool" where
  "fruns P E m = (\<forall>w r w'. m w = Some (r, w') \<longrightarrow> grows P w w' \<and> (\<forall>e. r = Inl e \<longrightarrow> E e))"

text \<open>The errors other than the service's own exception, and kinds of request.\<close>

definition not_ME :: "error \<Rightarrow> bool" where
  "not_ME e = (case e of MiddlewareException m \<Rightarrow> False | _ \<Rightarrow> True)"




text \<open>
  The request that creates one subscription of one user, the user fit for it (with an
  id, and with strings for the mail and the manager's mail), and the two requests of such
  a user.
\<close>

definition subscription_request ::
  "variant \<Rightarrow> (string \<times> json) list \<Rightarrow> string \<Rightarrow> string \<Rightarrow> string \<Rightarrow> string \<Rightarrow> string
     \<Rightarrow> string \<Rightarrow> string \<Rightarrow> request" where
  "subscription_request v headers hkey0 hkey1 untilstring uid mail manager_mail subscription =
     \<lparr>rq_meth = POST,
      rq_url = GRAPH_API_URL v @ ''/v1.0/subscriptions'',
      rq_headers = headers,
      rq_data = Some (JDict
        [(''changeType'', JStr ''created,updated,deleted''),
         (''notificationUrl'',
            JStr (SUBSCRIPTION_CALLBACK_URL v @ ''/'' @ SUBSCRIPTION_CALLBACK_PATH @ ''/''
                  @ subscription @ ''/'' @ hkey1)),
         (''resource'',
            JStr (''/users/'' @ uid @ ''/'' @ subscription
                  @ (case v of App \<Rightarrow> ''/'' | Application \<Rightarrow> ''''))),
         (''expirationDateTime'', JStr untilstring),
         (''clientState'', JStr (hkey0 @ ''^'' @ mail @ ''^'' @ manager_mail))])\<rparr>"

definition has_mail :: "json \<Rightarrow> bool" where
  "has_mail user =
     (case (py_getitem user ''id'', py_getitem user ''mail'', py_getitem user ''manager_mail'') of
        (Inr uid, Inr (JStr mail), Inr (JStr manager_mail)) \<Rightarrow> True
      | _ \<Rightarrow> False)"

definition user_requests ::
  "variant \<Rightarrow> (string \<times> json) list \<Rightarrow> string \<Rightarrow> string \<Rightarrow> string \<Rightarrow> json
     \<Rightarrow> request list" where
  "user_requests v headers hkey0 hkey1 untilstring user =
     (case (py_getitem user ''id'', py_getitem user ''mail'', py_getitem user ''manager_mail'') of
        (Inr uid, Inr (JStr mail), Inr (JStr manager_mail)) \<Rightarrow>
          [subscription_request v headers hkey0 hkey1 untilstring (py_str uid) mail manager_mail
             ''messages'',
           subscription_request v headers hkey0 hkey1 untilstring (py_str uid) mail manager_mail
             ''events'']
      | _ \<Rightarrow> [])"



section \<open>Example inputs\<close>

text \<open>
  A stored integration under the key \<^verbatim>\<open>k0k1\<close>, an environment that answers every
  request with an empty 200, and three notification items: the deletion of a message of
  that integration, one with a client state that has no caret, and one for a key that
  is not stored.
\<close>

definition ex_entry :: entry where
  "ex_entry = \<lparr>st_authorization = JStr ''Bearer t'',
               st_calendar_webhook = ''https://cal.example/hook'',
               st_email_webhook = ''https://mail.example/hook'',
               st_next_sync = 0\<rparr>"

definition ex_world :: world where
  "ex_world = \<lparr>calls = [], ticks = 0, logs = [],
               globalstate = Map.empty(''k0k1'' \<mapsto> ex_entry),
               globalstate_pkl = Pickled (Map.empty(''k0k1'' \<mapsto> ex_entry))\<rparr>"

definition ex_ok :: response where
  "ex_ok = \<lparr>resp_ok = True, resp_status_code = 200, resp_text = [], resp_json = None\<rparr>"

text \<open>
  The library of the examples. Its \<^verbatim>\<open>str.lower\<close> knows the letters of ASCII and of
  Latin-1 (U+00C0 to U+00DE but U+00D7, encoded as 0xC3 and a byte from 0x80 to 0x9E)
  and leaves every other character as it is; it accepts no host in square brackets and
  every network location. None of this is consulted on the examples: their strings are
  ASCII and have no square bracket.
\<close>

fun latin1_lower :: "string \<Rightarrow> string" where
  "latin1_lower (c # d # cs) =
     (if c = CHR 0xC3
      then c # (if digit7 d \<and> \<not> digit6 d \<and> \<not> digit5 d \<and> d \<notin> set [CHR 0x97, CHR 0x9F]
                then Char (digit0 d) (digit1 d) (digit2 d) (digit3 d) (digit4 d) True False True
                else d) # latin1_lower cs
      else lower_char c # latin1_lower (d # cs))"
| "latin1_lower cs = map lower_char cs"

definition ex_library :: library where
  "ex_library = \<lparr>unicode_lower = latin1_lower, bracketed_host_ok = (\<lambda>h. False),
                 nfkc_netloc_ok = (\<lambda>n. True)\<rparr>"

definition ex_env :: env where
  "ex_env = \<lparr>respond = (\<lambda>n rq. ex_ok), clock = (\<lambda>n. 0), python = ex_library\<rparr>"

definition ex_deleted :: json where
  "ex_deleted = JDict [(''clientState'', JStr ''k0^a@x.com^boss@x.com''),
                       (''changeType'', JStr ''deleted''),
                       (''resourceData'', JDict [(''@odata.id'', JStr ''users/u1/messages/m1'')])]"

definition ex_malformed :: json where
  "ex_malformed = JDict [(''clientState'', JStr ''k0-a@x.com''),
                         (''changeType'', JStr ''deleted''),
                         (''resourceData'', JDict [(''@odata.id'', JStr ''users/u1/messages/m0'')])]"

definition ex_unknown :: json where
  "ex_unknown = JDict [(''clientState'', JStr ''zz^a@x.com^boss@x.com''),
                       (''changeType'', JStr ''deleted''),
                       (''resourceData'', JDict [(''@odata.id'', JStr ''users/u1/messages/m2'')])]"

definition ex_callback :: "json list \<Rightarrow> flask_request" where
  "ex_callback items = \<lparr>args = [], in_headers = [], in_data = Some (JDict [(''value'', JList items)])\<rparr>"






definition ex_clock_env :: env where
  "ex_clock_env = \<lparr>respond = (\<lambda>n rq. ex_ok), clock = (\<lambda>n. 63850154400000000),
                   python = ex_library\<rparr>"

text \<open>
  A trigger call for the two example webhooks, and a world in which that integration
  was synced and is due again on 2024-05-02 at 09:00.
\<close>

definition ex_trigger :: flask_request where
  "ex_trigger = \<lparr>args = [(''calendar_webhook'', ''https://cal.example/hook''),
                         (''email_webhook'', ''https://mail.example/hook'')],
                 in_headers = [(''Authorization'', ''Bearer new''), (''Accept'', ''*/*''),
                               (''Content-Type'', ''application/json'')],
                 in_data = None\<rparr>"

definition ex_synced_world :: world where
  "ex_synced_world =
     \<lparr>calls = [], ticks = 0, logs = [],
      globalstate = Map.empty(full_hkey ''https://cal.example/hook'' ''https://mail.example/hook''
                               \<mapsto> ex_entry\<lparr>st_next_sync := 63850237200000000\<rparr>),
      globalstate_pkl = Pickled (Map.empty
         (full_hkey ''https://cal.example/hook'' ''https://mail.example/hook''
            \<mapsto> ex_entry\<lparr>st_next_sync := 63850237200000000\<rparr>))\<rparr>"






text \<open>A directory user without a mailbox, and one with a mailbox and a manager.\<close>

definition ex_user_without_mail :: json where
  "ex_user_without_mail = JDict [(''id'', JStr ''u0''), (''mail'', JNull), (''manager_mail'', JStr '''')]"

definition ex_user :: json where
  "ex_user = JDict [(''id'', JStr ''u1''), (''mail'', JStr ''a@x.com''),
                    (''manager_mail'', JStr ''boss@x.com'')]"

section \<open>Properties of the integration key\<close>

lemma length_hex64: "length (hex64 w) = 16"
  by (simp add: hex64_def)

lemma length_sha512_hexdigest: "length (sha512_hexdigest s) = 128"
  unfolding sha512_hexdigest_def by (simp add: length_hex64 split: prod.split)

lemma split_hkey_eq_iff: "split_hkey a b = split_hkey c d \<longleftrightarrow> full_hkey a b = full_hkey c d"
proof
  assume h: "split_hkey a b = split_hkey c d"
  have "full_hkey a b = take 32 (full_hkey a b) @ drop 32 (full_hkey a b)"
    by simp
  also have "\<dots> = take 32 (full_hkey c d) @ drop 32 (full_hkey c d)"
    using h by (simp add: split_hkey_def)
  finally show "full_hkey a b = full_hkey c d"
    by simp
next
  assume "full_hkey a b = full_hkey c d"
  then show "split_hkey a b = split_hkey c d"
    by (simp add: split_hkey_def)
qed

text \<open>
  C3, as amended. Putting the two parts of the key together gives the hexadecimal SHA-512
  digest of the concatenation of the two URLs, for every pair of URLs. The keys of
  \<open>(a, b)\<close> and \<open>(b, a)\<close> are equal exactly when the digests of \<open>a + b\<close> and
  \<open>b + a\<close> are, and they are equal whenever \<open>a + b = b + a\<close>: the key depends on the
  concatenation only, so \<open>a \<noteq> b\<close> alone does not make the two keys differ.
\<close>

theorem C3_rebuild_and_order:
  "rebuild_hkey (fst (split_hkey a b)) (snd (split_hkey a b)) = sha512_hexdigest (a @ b)
   \<and> (split_hkey a b = split_hkey b a \<longleftrightarrow> sha512_hexdigest (a @ b) = sha512_hexdigest (b @ a))
   \<and> (a @ b = b @ a \<longrightarrow> split_hkey a b = split_hkey b a)"
proof -
  have r: "rebuild_hkey (fst (split_hkey a b)) (snd (split_hkey a b)) = sha512_hexdigest (a @ b)"
    by (simp add: rebuild_hkey_def split_hkey_def full_hkey_def)
  have e: "split_hkey a b = split_hkey b a \<longleftrightarrow> sha512_hexdigest (a @ b) = sha512_hexdigest (b @ a)"
    by (simp add: split_hkey_eq_iff full_hkey_def)
  from r e show ?thesis
    by simp
qed

theorem C3_rebuild_and_order_witness:
  "rebuild_hkey (fst (split_hkey ''https://c.example/w'' ''https://c.example/whttps://c.example/w''))
                (snd (split_hkey ''https://c.example/w'' ''https://c.example/whttps://c.example/w''))
     = sha512_hexdigest (''https://c.example/w'' @ ''https://c.example/whttps://c.example/w'')
   \<and> split_hkey ''https://c.example/w'' ''https://c.example/whttps://c.example/w''
     = split_hkey ''https://c.example/whttps://c.example/w'' ''https://c.example/w''"
proof -
  have c: "''https://c.example/w'' @ ''https://c.example/whttps://c.example/w''
           = ''https://c.example/whttps://c.example/w'' @ ''https://c.example/w''"
    by simp
  show ?thesis
    using c C3_rebuild_and_order
              [of "''https://c.example/w''" "''https://c.example/whttps://c.example/w''"]
    by blast
qed

text \<open>
  The claim as the specification states it fails: these two URLs differ, and the key
  derived from them is the same in either order.
\<close>

theorem C3_swap_counterexample:
  "''https://h.example/a'' \<noteq> ''https://h.example/ahttps://h.example/a''
   \<and> split_hkey ''https://h.example/a'' ''https://h.example/ahttps://h.example/a''
     = split_hkey ''https://h.example/ahttps://h.example/a'' ''https://h.example/a''"
  by (simp add: split_hkey_def full_hkey_def)

text \<open>
  C4, as amended. The digest has 128 hexadecimal characters for every pair of URLs; the
  first part of the key is its first 32 characters and the second part the remaining 96.
  The split is not at the midpoint.
\<close>

theorem C4_split_at_32:
  "length (sha512_hexdigest (a @ b)) = 128
   \<and> fst (split_hkey a b) = take 32 (sha512_hexdigest (a @ b))
   \<and> snd (split_hkey a b) = drop 32 (sha512_hexdigest (a @ b))
   \<and> length (fst (split_hkey a b)) = 32
   \<and> length (snd (split_hkey a b)) = 96"
  by (simp add: split_hkey_def full_hkey_def length_sha512_hexdigest)

text \<open>
  The claim as the specification states it fails: the first part of this key does not
  have 64 characters.
\<close>

theorem C4_midpoint_counterexample:
  "length (fst (split_hkey ''https://cal.example/hook'' ''https://mail.example/hook'')) \<noteq> 64"
  by (simp add: split_hkey_def full_hkey_def length_sha512_hexdigest)

section \<open>Running the statements\<close>

text \<open>How the primitive statements run in a world; these equations evaluate a run.\<close>

lemma ret_apply: "ret x w = (Inr x, w)"
  by (simp add: ret_def)

lemma raise_apply: "raise e w = (Inl e, w)"
  by (simp add: raise_def)

lemma lift_apply: "lift r w = (r, w)"
  by (simp add: lift_def)

lemma bnd_apply:
  "bnd m f w = (case m w of (Inl e, w') \<Rightarrow> (Inl e, w') | (Inr x, w') \<Rightarrow> f x w')"
  by (simp add: bnd_def)

lemma total_apply: "total m w = Some (m w)"
  by (simp add: total_def)

lemma fbnd_apply:
  "fbnd m f w =
     (case m w of
        None \<Rightarrow> None
      | Some (Inl e, w') \<Rightarrow> Some (Inl e, w')
      | Some (Inr x, w') \<Rightarrow> f x w')"
  by (simp add: fbnd_def)

lemma logging_apply:
  "logging lvl msg w = (Inr (), w\<lparr>logs := logs w @ [Log lvl msg]\<rparr>)"
  by (simp add: logging_def)

lemma requests_request_apply:
  "requests_request env rq w
     = (Inr (respond env (length (calls w)) rq), w\<lparr>calls := calls w @ [rq]\<rparr>)"
  by (simp add: requests_request_def)

lemma datetime_now_apply:
  "datetime_now env w = (Inr (clock env (ticks w)), w\<lparr>ticks := Suc (ticks w)\<rparr>)"
  by (simp add: datetime_now_def)

lemma raise_MiddlewareException_apply:
  "raise_MiddlewareException msg w
     = (Inl (MiddlewareException msg), w\<lparr>logs := logs w @ [Log ERROR msg]\<rparr>)"
  by (simp add: raise_MiddlewareException_def)

lemmas run_simps = ret_apply raise_apply lift_apply bnd_apply total_apply fbnd_apply
  logging_apply requests_request_apply datetime_now_apply raise_MiddlewareException_apply

section \<open>Properties of the callback endpoint\<close>

lemma value_absent:
  assumes "py_getitem item ''clientState'' = Inr (JStr cs)"
    and "split_on CHR ''^'' cs = [hkey0, mail, manager_mail]"
    and "key_absent v (hkey0 @ hkey1) w"
  shows "handle_subscription_callback_value v env subscription hkey1 item w
         = ((if v = Application \<and> globalstate_pkl w = Missing
             then Inl (MiddlewareException ''globalstate.pkl is empty at point of receiving webhook callback'')
             else Inr (Some (Response [] 202 None))),
            w\<lparr>logs := logs w @ [absent_key_log v (hkey0 @ hkey1) w]\<rparr>)"
  using assms
  by (auto simp: run_simps handle_subscription_callback_value_def key_absent_def absent_key_log_def
        get_data_def rebuild_hkey_def GLOBAL_STATE_PATH_def
      split: variant.splits pkl.splits option.splits)

text \<open>
  C9, as amended. An item whose rebuilt key (the prefix in its client state followed by
  the suffix in the URL) has no entry in the state store changes nothing but the log:
  no request is made for it, neither downstream nor upstream. The loop goes on with the
  items that follow it, and a batch of that item alone is answered with 202 and an
  empty body. What is logged is a warning, except in \<^verbatim>\<open>application.py\<close> when the state
  file does not exist: there the item raises a MiddlewareException, which logs an error
  and which the loop catches.
\<close>

theorem C9_absent_key_is_benign:
  assumes "py_getitem item ''clientState'' = Inr (JStr cs)"
    and "split_on CHR ''^'' cs = [hkey0, mail, manager_mail]"
    and "key_absent v (hkey0 @ hkey1) w"
    and "map_of (args request) ''validationToken'' = None"
  shows "snd (handle_subscription_callback_value v env subscription hkey1 item w)
           = w\<lparr>logs := logs w @ [absent_key_log v (hkey0 @ hkey1) w]\<rparr>
       \<and> callback_items v env subscription hkey1 (item # rest) w
           = callback_items v env subscription hkey1 rest
               (w\<lparr>logs := logs w @ [absent_key_log v (hkey0 @ hkey1) w]\<rparr>)
       \<and> handle_subscription_callback v env subscription hkey1
             (request\<lparr>in_data := Some (JDict [(''value'', JList [item])])\<rparr>) w
           = (Inr (Response [] 202 None),
              w\<lparr>logs := logs w @ [absent_key_log v (hkey0 @ hkey1) w]\<rparr>)
       \<and> handle_subscription_callback v env subscription hkey1
             (request\<lparr>in_data := Some (JDict [(''value'', JList (item # rest))])\<rparr>) w
           = handle_subscription_callback v env subscription hkey1
               (request\<lparr>in_data := Some (JDict [(''value'', JList rest)])\<rparr>)
               (w\<lparr>logs := logs w @ [absent_key_log v (hkey0 @ hkey1) w]\<rparr>)"
proof -
  note v = value_absent [OF assms(1,2,3), of env subscription]
  have items: "callback_items v env subscription hkey1 (item # more) w
                 = callback_items v env subscription hkey1 more
                     (w\<lparr>logs := logs w @ [absent_key_log v (hkey0 @ hkey1) w]\<rparr>)" for more
    by (simp add: run_simps v)
  show ?thesis
    using assms(4) by (simp add: run_simps v items handle_subscription_callback_def)
qed

theorem C9_absent_key_is_benign_witness:
  "callback_items App ex_env ''messages'' ''k1'' [ex_unknown, ex_deleted] ex_world
     = callback_items App ex_env ''messages'' ''k1'' [ex_deleted]
         (ex_world\<lparr>logs := [Log WARNING ''Received unexpected hkey zzk1'']\<rparr>)
   \<and> handle_subscription_callback App ex_env ''messages'' ''k1'' (ex_callback [ex_unknown]) ex_world
     = (Inr (Response [] 202 None), ex_world\<lparr>logs := [Log WARNING ''Received unexpected hkey zzk1'']\<rparr>)"
  using C9_absent_key_is_benign
          [of ex_unknown "''zz^a@x.com^boss@x.com''" "''zz''" "''a@x.com''" "''boss@x.com''" App
              "''k1''" ex_world "ex_callback []" ex_env "''messages''" "[ex_deleted]"]
  by (simp add: run_simps ex_unknown_def key_absent_def absent_key_log_def ex_world_def ex_callback_def)

text \<open>
  The claim as the specification states it fails in \<^verbatim>\<open>application.py\<close>: with no state
  file, the item for an unknown key logs an error and no warning.
\<close>

theorem C9_warning_counterexample:
  "key_absent Application (''zz'' @ ''k1'') (ex_world\<lparr>globalstate_pkl := Missing\<rparr>)
   \<and> handle_subscription_callback_value Application ex_env ''messages'' ''k1'' ex_unknown
        (ex_world\<lparr>globalstate_pkl := Missing\<rparr>)
     = (Inl (MiddlewareException ''globalstate.pkl is empty at point of receiving webhook callback''),
        ex_world\<lparr>globalstate_pkl := Missing,
                 logs := [Log ERROR ''globalstate.pkl is empty at point of receiving webhook callback'']\<rparr>)"
  by (simp add: run_simps key_absent_def handle_subscription_callback_value_def ex_unknown_def
        ex_world_def get_data_def rebuild_hkey_def GLOBAL_STATE_PATH_def)

text \<open>
  C1. The handler is to answer 202 whatever happens to an item, a malformed client state
  included. It does not: a client state without two carets raises a ValueError in the
  unpacking, the loop catches a MiddlewareException only, so the handler raises, no 202
  is returned, and the deletion that the next item of the batch asks for is never made.
  The same item alone is handled and answered with 202.
\<close>

theorem C1_malformed_clientState_escapes:
  "handle_subscription_callback App ex_env ''messages'' ''k1''
       (ex_callback [ex_malformed, ex_deleted]) ex_world
     = (Inl ValueError, ex_world)
   \<and> handle_subscription_callback Application ex_env ''messages'' ''k1''
       (ex_callback [ex_malformed, ex_deleted]) ex_world
     = (Inl ValueError, ex_world)
   \<and> handle_subscription_callback App ex_env ''messages'' ''k1'' (ex_callback [ex_deleted]) ex_world
     = (Inr (Response [] 202 None),
        ex_world\<lparr>calls := [\<lparr>rq_meth = DELETE, rq_url = ''https://mail.example/hook/?id=m1'',
                              rq_headers = [], rq_data = None\<rparr>]\<rparr>)"
  by (simp add: run_simps handle_subscription_callback_def handle_subscription_callback_value_def
        ex_callback_def ex_malformed_def ex_deleted_def ex_world_def ex_entry_def ex_env_def
        get_data_def rebuild_hkey_def)

section \<open>Properties of the change processor\<close>




text \<open>\<^verbatim>\<open>str.lower\<close> on ASCII strings, whatever the library.\<close>

lemma is_ascii_lower_char: "is_ascii s \<Longrightarrow> is_ascii (map lower_char s)"
  by (induction s) (auto simp: is_ascii_def lower_char_def)

lemma lower_ascii: "is_ascii s \<Longrightarrow> lower lib s = map lower_char s"
  by (simp add: lower_def)

lemma lower_char_idem: "lower_char (lower_char c) = lower_char c"
  by (auto simp: lower_char_def)

lemma lower_idem_ascii: "is_ascii s \<Longrightarrow> lower lib (lower lib s) = lower lib s"
  by (simp add: lower_ascii is_ascii_lower_char lower_char_idem)
















section \<open>Properties of the trigger endpoint\<close>

text \<open>
  C5. A trigger call whose stored state has \<open>next_sync\<close> after the time read makes no
  request at all (directory, calendar and subscriptions are not called), logs nothing,
  answers 200, and stores under the full key a record with the caller's credential and
  webhook URLs and with the \<open>next_sync\<close> that was stored; the other keys are as they
  were.
\<close>

theorem C5_not_due_refreshes_credentials:
  assumes "map_of (args request) ''calendar_webhook'' = Some calendar_webhook"
    and "map_of (args request) ''email_webhook'' = Some email_webhook"
    and "stored v (full_hkey calendar_webhook email_webhook) w = Some state"
    and "clock env (ticks w) < st_next_sync state"
  shows "\<exists>w'. trigger_middleware v env fuel request w = Some (Inr (Response ok_body 200 None), w')
           \<and> calls w' = calls w
           \<and> logs w' = logs w
           \<and> stored v (full_hkey calendar_webhook email_webhook) w'
               = Some \<lparr>st_authorization = headers_get (in_headers request) ''Authorization'',
                        st_calendar_webhook = calendar_webhook,
                        st_email_webhook = email_webhook,
                        st_next_sync = st_next_sync state\<rparr>
           \<and> (\<forall>k. k = full_hkey calendar_webhook email_webhook \<or> stored v k w' = stored v k w)"
proof (cases v)
  case App
  then show ?thesis
    using assms
    by (simp add: run_simps trigger_middleware_def stored_next_sync_def get_data_def store_data_def
          args_getitem_def stored_def)
next
  case Application
  then obtain d where d: "globalstate_pkl w = Pickled d"
    using assms(3) by (cases "globalstate_pkl w") (simp_all add: run_simps stored_def)
  show ?thesis
    using assms Application d
    by (simp add: run_simps trigger_middleware_def stored_next_sync_def get_data_def store_data_def
          args_getitem_def stored_def)
qed

theorem C5_not_due_refreshes_credentials_witness:
  "\<exists>w'. trigger_middleware App ex_clock_env 0 ex_trigger ex_synced_world
           = Some (Inr (Response ok_body 200 None), w')
        \<and> calls w' = []
        \<and> logs w' = []
        \<and> stored App (full_hkey ''https://cal.example/hook'' ''https://mail.example/hook'') w'
            = Some \<lparr>st_authorization = JStr ''Bearer new'',
                     st_calendar_webhook = ''https://cal.example/hook'',
                     st_email_webhook = ''https://mail.example/hook'',
                     st_next_sync = 63850237200000000\<rparr>"
proof -
  have "\<exists>w'. trigger_middleware App ex_clock_env 0 ex_trigger ex_synced_world
           = Some (Inr (Response ok_body 200 None), w')
           \<and> calls w' = calls ex_synced_world
           \<and> logs w' = logs ex_synced_world
           \<and> stored App (full_hkey ''https://cal.example/hook'' ''https://mail.example/hook'') w'
               = Some \<lparr>st_authorization = headers_get (in_headers ex_trigger) ''Authorization'',
                        st_calendar_webhook = ''https://cal.example/hook'',
                        st_email_webhook = ''https://mail.example/hook'',
                        st_next_sync = st_next_sync (ex_entry\<lparr>st_next_sync := 63850237200000000\<rparr>)\<rparr>
           \<and> (\<forall>k. k = full_hkey ''https://cal.example/hook'' ''https://mail.example/hook''
                    \<or> stored App k w' = stored App k ex_synced_world)"
    by (rule C5_not_due_refreshes_credentials)
       (simp_all add: run_simps ex_trigger_def ex_synced_world_def stored_def ex_clock_env_def ex_entry_def)
  then show ?thesis
    by (auto simp: run_simps ex_synced_world_def ex_trigger_def headers_get_def)
qed

section \<open>Properties of the listing functions\<close>

lemma grows_refl [simp]: "grows P w w"
  by (simp add: grows_def)


lemma grows_mono: "grows P w w' \<Longrightarrow> (\<And>rq. P rq \<Longrightarrow> Q rq) \<Longrightarrow> grows Q w w'"
  by (auto simp: grows_def list_all_iff)

lemma runs_mono:
  "runs P E m \<Longrightarrow> (\<And>rq. P rq \<Longrightarrow> Q rq) \<Longrightarrow> (\<And>e. E e \<Longrightarrow> F e) \<Longrightarrow> runs Q F m"
  unfolding runs_def by (blast intro: grows_mono)


lemma runs_raise [intro!]: "E e \<Longrightarrow> runs P E (raise e)"
  by (simp add: runs_def run_simps)


lemma runs_logging [intro!, simp]: "runs P E (logging lvl msg)"
  by (simp add: runs_def grows_def run_simps)

lemma runs_datetime_now [intro!, simp]: "runs P E (datetime_now env)"
  by (simp add: runs_def grows_def run_simps)






lemma fruns_none [intro!, simp]: "fruns P E (\<lambda>w. None)"
  by (simp add: fruns_def)



lemma fruns_mono:
  "fruns P E m \<Longrightarrow> (\<And>rq. P rq \<Longrightarrow> Q rq) \<Longrightarrow> (\<And>e. E e \<Longrightarrow> F e) \<Longrightarrow> fruns Q F m"
  unfolding fruns_def by (blast intro: grows_mono)







lemma not_ME_simps [simp]:
  "not_ME KeyError" "not_ME ValueError" "not_ME TypeError" "not_ME AttributeError"
  "not_ME IndexError" "not_ME RequestException" "\<not> not_ME (MiddlewareException m)"
  by (simp_all add: not_ME_def)





































section \<open>Properties of the subscription manager\<close>

lemma strftime_until_example:
  "strftime_until (63850154400000000 + timedelta_hours HOURS_TO_SUBSCRIBE)
   = ''2024-05-02T10:00:00.0000000Z''"
  by (simp add: strftime_until_def date_time_string_def ord2ymd_def timedelta_hours_def
        HOURS_TO_SUBSCRIBE_def pad2_def pad4_def digit_char_def days_before_month_def
        days_in_month_def is_leap_def upto.simps Let_def)

text \<open>
  C8. Every directory user with a mail is to get its two subscriptions. In \<^verbatim>\<open>app.py\<close>
  a user whose mail is \<^verbatim>\<open>None\<close> makes the concatenation that builds the client state
  raise a TypeError, which ends the registration: the users after it get no subscription.
  \<^verbatim>\<open>application.py\<close> skips such a user and subscribes the next one.
\<close>

theorem C8_user_without_mail_aborts:
  "register_subscriptions App ex_clock_env [] ''prefix'' ''suffix'' [ex_user_without_mail, ex_user]
       ex_world
     = (Inl TypeError, ex_world\<lparr>ticks := 1\<rparr>)
   \<and> register_subscriptions Application ex_clock_env [] ''prefix'' ''suffix''
       [ex_user_without_mail, ex_user] ex_world
     = (Inr (),
        ex_world\<lparr>ticks := 1,
                 calls := [subscription_request Application [] ''prefix'' ''suffix''
                             ''2024-05-02T10:00:00.0000000Z'' ''u1'' ''a@x.com'' ''boss@x.com''
                             ''messages'',
                           subscription_request Application [] ''prefix'' ''suffix''
                             ''2024-05-02T10:00:00.0000000Z'' ''u1'' ''a@x.com'' ''boss@x.com''
                             ''events'']\<rparr>)"
  by (simp add: register_subscriptions_def subscribe_def ex_user_without_mail_def ex_user_def
        ex_clock_env_def ex_world_def ex_ok_def strftime_until_example [simplified]
        subscription_request_def py_str_def run_simps)

text \<open>
  When every user is fit, both variants send the two requests of each user in turn,
  whatever the upstream answers to them.
\<close>

lemma subscribe_run:
  assumes "has_mail user"
  shows "\<exists>uid mail manager_mail.
           py_getitem user ''id'' = Inr uid \<and> py_getitem user ''mail'' = Inr (JStr mail)
           \<and> py_getitem user ''manager_mail'' = Inr (JStr manager_mail)
           \<and> fst (subscribe v env headers hkey0 hkey1 untilstring user subscription w) = Inr ()
           \<and> calls (snd (subscribe v env headers hkey0 hkey1 untilstring user subscription w))
               = calls w @ [subscription_request v headers hkey0 hkey1 untilstring (py_str uid)
                              mail manager_mail subscription]"
  using assms
  by (auto simp: has_mail_def subscribe_def subscription_request_def run_simps
      split: sum.splits json.splits)

lemma register_users_run:
  assumes "list_all has_mail users"
  shows "fst (register_users v env headers hkey0 hkey1 untilstring users w) = Inr ()
       \<and> calls (snd (register_users v env headers hkey0 hkey1 untilstring users w))
           = calls w @ concat (map (user_requests v headers hkey0 hkey1 untilstring) users)"
  using assms
proof (induction users arbitrary: w)
  case Nil
  show ?case by (simp add: run_simps)
next
  case (Cons user rest)
  then have hm: "has_mail user" and r: "list_all has_mail rest"
    by simp_all
  from subscribe_run [OF hm, of v env headers hkey0 hkey1 untilstring "''messages''" w]
  obtain uid mail manager_mail where
    u: "py_getitem user ''id'' = Inr uid" "py_getitem user ''mail'' = Inr (JStr mail)"
       "py_getitem user ''manager_mail'' = Inr (JStr manager_mail)"
    by blast
  obtain w1 where s1: "subscribe v env headers hkey0 hkey1 untilstring user ''messages'' w = (Inr (), w1)"
    and c1: "calls w1 = calls w @ [subscription_request v headers hkey0 hkey1 untilstring (py_str uid)
                                    mail manager_mail ''messages'']"
    using subscribe_run [OF hm, of v env headers hkey0 hkey1 untilstring "''messages''" w] u
    by (cases "subscribe v env headers hkey0 hkey1 untilstring user ''messages'' w") auto
  obtain w2 where s2: "subscribe v env headers hkey0 hkey1 untilstring user ''events'' w1 = (Inr (), w2)"
    and c2: "calls w2 = calls w1 @ [subscription_request v headers hkey0 hkey1 untilstring (py_str uid)
                                     mail manager_mail ''events'']"
    using subscribe_run [OF hm, of v env headers hkey0 hkey1 untilstring "''events''" w1] u
    by (cases "subscribe v env headers hkey0 hkey1 untilstring user ''events'' w1") auto
  have step: "register_users v env headers hkey0 hkey1 untilstring (user # rest) w
              = register_users v env headers hkey0 hkey1 untilstring rest w2"
    using s1 s2 u by (cases v) (simp_all add: run_simps)
  show ?case
    unfolding step using Cons.IH [OF r, of w2] u c1 c2
    by (simp add: user_requests_def)
qed

end
